theory Spec2Isabelle
  imports Main "HOL-Library.Sublist" "HOL-Library.AList"
begin

section \<open>Severity, issues and pipeline status\<close>

text \<open>
  The enums and dataclasses of \<^verbatim>\<open>setup_plugin_pipeline.py\<close>. A path is the list of
  its components below the file-system root; \<^verbatim>\<open>project_path\<close> is always resolved,
  hence absolute.
\<close>

datatype ProjectType = MARKETPLACE | PLUGIN | PLUGIN_IN_MARKETPLACE | UNKNOWN

datatype IssueLevel = CRITICAL | MAJOR | MINOR | INFO

record PipelineIssue =
  level :: IssueLevel
  component :: string
  message :: string
  fix_available :: bool
  fix_description :: string

type_synonym path = "string list"

record PipelineStatus =
  project_type :: ProjectType
  project_path :: path
  issues :: "PipelineIssue list"
  hooks_installed :: "string \<rightharpoonup> bool"
  config_files :: "string \<rightharpoonup> bool"
  submodules :: "string list"

text \<open>\<^verbatim>\<open>not any(issue.level in (CRITICAL, MAJOR) for issue in self.issues)\<close>\<close>

definition is_valid :: "PipelineStatus \<Rightarrow> bool" where
  "is_valid st = (\<not> list_ex (\<lambda>issue. level issue = CRITICAL \<or> level issue = MAJOR) (issues st))"

definition critical_count :: "PipelineStatus \<Rightarrow> nat" where
  "critical_count st = length (filter (\<lambda>i. level i = CRITICAL) (issues st))"

definition major_count :: "PipelineStatus \<Rightarrow> nat" where
  "major_count st = length (filter (\<lambda>i. level i = MAJOR) (issues st))"

definition minor_count :: "PipelineStatus \<Rightarrow> nat" where
  "minor_count st = length (filter (\<lambda>i. level i = MINOR) (issues st))"

text \<open>The constructor call \<^verbatim>\<open>PipelineIssue(level=..., component=..., ...)\<close> with its defaults
  \<^verbatim>\<open>fix_available=False\<close> and \<^verbatim>\<open>fix_description=""\<close> written out by the caller.\<close>

definition mk_issue :: "IssueLevel \<Rightarrow> string \<Rightarrow> string \<Rightarrow> bool \<Rightarrow> string \<Rightarrow> PipelineIssue" where
  "mk_issue l c m fa fd =
     \<lparr>level = l, component = c, message = m, fix_available = fa, fix_description = fd\<rparr>"

text \<open>\<^verbatim>\<open>PipelineStatus(project_type=ProjectType.UNKNOWN, project_path=p)\<close>: the other fields
  take their \<^verbatim>\<open>default_factory\<close> values.\<close>

definition new_status :: "path \<Rightarrow> PipelineStatus" where
  "new_status p =
     \<lparr>project_type = UNKNOWN, project_path = p, issues = [],
      hooks_installed = Map.empty, config_files = Map.empty, submodules = []\<rparr>"

definition example_status :: PipelineStatus where
  "example_status =
     (new_status [''repo''])\<lparr>issues :=
        [mk_issue MINOR ''config'' ''Missing cliff.toml (Changelog generation config)'' True
           ''Create cliff.toml'',
         mk_issue INFO ''ci'' ''note'' False '''']\<rparr>"

section \<open>The pre-push hook: external observations\<close>

text \<open>
  The hook script \<^verbatim>\<open>PRE_PUSH_HOOK\<close> drives external programs. What a run observes of
  them is an input of the model: one record per adapter, one field per call site. At a
  call site guarded by \<^verbatim>\<open>except subprocess.TimeoutExpired\<close> and
  \<^verbatim>\<open>except FileNotFoundError\<close> (or \<^verbatim>\<open>OSError\<close>) an observation is a \<open>proc\<close>; at a
  site guarded against the timeout only it is a \<open>proc_t\<close>; at an unguarded site it is the
  return code. The \<^verbatim>\<open>NameError\<close> that \<^verbatim>\<open>lint_json\<close> raises is modelled (see there); any
  other exception that the source does not catch ends the hook with a traceback, and the
  model covers the runs in which every other call returns or raises what its site handles.

  These sections follow the functions of the template as they are written. Whether the
  installed script gets as far as calling them is the subject of the section on the
  installed script.
\<close>

datatype proc = Exit int | TimeoutExpired | FileNotFoundError

datatype proc_t = Done int | TimedOut

record python_obs =
  ruff_fix :: proc
  py_changes_after_fix :: bool
  mypy_available :: bool
  mypy_run :: proc_t
  ruff_verify :: proc_t
  ruff_format :: proc_t
  py_changes_after_format :: bool

record javascript_obs =
  js_which_bun :: bool
  js_which_npx :: bool
  js_local_eslint :: bool
  js_which_eslint :: bool
  js_has_config :: bool
  eslint_fix :: proc
  js_changes_after_fix :: bool
  eslint_verify :: proc

record shell_obs =
  shellcheck :: "string \<Rightarrow> proc"

record go_obs =
  gofmt :: proc
  go_changes_after_fmt :: bool
  go_vet :: proc

record rust_obs =
  cargo_toml_exists :: bool
  cargo_fmt :: proc
  rs_changes_after_fmt :: bool
  clippy_fix :: proc_t
  rs_changes_after_clippy_fix :: bool
  clippy_verify :: proc

record markdown_obs =
  md_which_bun :: bool
  md_which_npx :: bool
  md_which_markdownlint :: bool
  markdownlint_fix :: proc
  md_changes_after_fix :: bool
  markdownlint_verify :: proc

record yaml_obs =
  yaml_which_yamllint :: bool
  yamllint :: proc
  yamllint_stdout_has_error :: bool

text \<open>What \<^verbatim>\<open>ensure_linter_installed\<close> observes: \<^verbatim>\<open>shutil.which\<close>, the result of
  \<^verbatim>\<open>install_python_tool\<close>, two path tests below the repository root, the return code
  of the unguarded \<^verbatim>\<open>install eslint\<close> call per package manager, the outcome of a guarded
  install command, and \<^verbatim>\<open>platform.system().lower()\<close>.\<close>

record tool_env =
  which :: "string \<Rightarrow> bool"
  install_python_tool :: "string \<Rightarrow> bool"
  local_eslint_exists :: bool
  package_json_exists :: bool
  eslint_install_rc :: "string \<Rightarrow> int"
  install_run :: "string list \<Rightarrow> proc"
  os_type :: string

record lint_env =
  languages :: "(string \<times> string list) list"
  tools :: "string \<Rightarrow> tool_env"
  python :: python_obs
  javascript :: javascript_obs
  shell :: shell_obs
  go :: go_obs
  rust :: rust_obs
  markdown :: markdown_obs
  yaml :: yaml_obs

record git_obs =
  add_rc :: int
  diff_cached_rc :: int
  commit_rc :: int

record plugin_entry =
  plugin_name :: "string option"
  plugin_path_exists :: bool
  plugin_validator_rc :: int

datatype manifests = MarketplaceJson "plugin_entry list" | PluginJson int | NoManifest

text \<open>\<^verbatim>\<open>detect_languages\<close> returns a dict: every category occurs once, with a non-empty
  file list, and a manifest \<^verbatim>\<open>.claude-plugin/plugin.json\<close> or \<^verbatim>\<open>marketplace.json\<close> is
  itself a JSON file below the repository root, so the json category is present whenever
  plugin validation finds a manifest.\<close>

record round_env =
  lint :: lint_env
  git :: git_obs
  validation :: manifests

record hook_env =
  validator_found :: bool
  round :: "nat \<Rightarrow> round_env"

section \<open>The pre-push hook: linter adapters\<close>

datatype py_step = RuffCheckFix | MypyCheck | RuffCheckVerify | RuffFormat

definition failed_t :: "proc_t \<Rightarrow> bool" where
  "failed_t p = (case p of Done rc \<Rightarrow> rc \<noteq> 0 | TimedOut \<Rightarrow> False)"

text \<open>\<^verbatim>\<open>lint_python\<close>, with the list of the \<^verbatim>\<open>subprocess.run\<close> calls it issues, in order:
  \<^verbatim>\<open>ruff check --fix\<close>, \<^verbatim>\<open>mypy\<close>, \<^verbatim>\<open>ruff check\<close> (verify), \<^verbatim>\<open>ruff format\<close>.\<close>

definition lint_python_run :: "python_obs \<Rightarrow> (bool \<times> bool) \<times> py_step list" where
  "lint_python_run ob =
     (if ruff_fix ob = FileNotFoundError then ((False, False), [RuffCheckFix])
      else
        let files_changed = py_changes_after_fix ob;
            steps2 = [RuffCheckFix] @ (if mypy_available ob then [MypyCheck] else [])
        in
        if mypy_available ob \<and> failed_t (mypy_run ob) then ((False, files_changed), steps2)
        else if failed_t (ruff_verify ob) then ((False, files_changed), steps2 @ [RuffCheckVerify])
        else ((True, files_changed \<or> py_changes_after_format ob),
              steps2 @ [RuffCheckVerify, RuffFormat]))"

definition lint_python :: "python_obs \<Rightarrow> bool \<times> bool" where
  "lint_python ob = fst (lint_python_run ob)"

definition verify_result :: "proc \<Rightarrow> bool" where
  "verify_result p = (case p of Exit rc \<Rightarrow> rc = 0 | TimeoutExpired \<Rightarrow> True | FileNotFoundError \<Rightarrow> True)"

definition lint_javascript :: "javascript_obs \<Rightarrow> bool \<times> bool" where
  "lint_javascript ob =
     (if \<not> (js_which_bun ob \<or> js_which_npx ob \<or> js_local_eslint ob \<or> js_which_eslint ob)
      then (True, False)
      else if \<not> js_has_config ob then (True, False)
      else if eslint_fix ob = FileNotFoundError then (True, False)
      else (verify_result (eslint_verify ob), js_changes_after_fix ob))"

fun lint_shell_loop :: "shell_obs \<Rightarrow> string list \<Rightarrow> bool \<Rightarrow> bool \<times> bool" where
  "lint_shell_loop ob [] all_passed = (all_passed, False)"
| "lint_shell_loop ob (f # fs) all_passed =
     (case shellcheck ob f of
        Exit rc \<Rightarrow> lint_shell_loop ob fs (if rc \<noteq> 0 then False else all_passed)
      | TimeoutExpired \<Rightarrow> lint_shell_loop ob fs all_passed
      | FileNotFoundError \<Rightarrow> (True, False))"

definition lint_shell :: "shell_obs \<Rightarrow> string list \<Rightarrow> bool \<times> bool" where
  "lint_shell ob files = lint_shell_loop ob files True"

definition lint_go :: "go_obs \<Rightarrow> bool \<times> bool" where
  "lint_go ob =
     (if gofmt ob = FileNotFoundError then (False, False)
      else (verify_result (go_vet ob), go_changes_after_fmt ob))"

datatype rs_step = CargoFmt | CargoClippyFix | CargoClippy

text \<open>\<^verbatim>\<open>lint_rust\<close>, with the list of the \<^verbatim>\<open>subprocess.run\<close> calls it issues, in order:
  \<^verbatim>\<open>cargo fmt\<close>, \<^verbatim>\<open>cargo clippy --fix\<close>, \<^verbatim>\<open>cargo clippy\<close> (final check).\<close>

definition lint_rust_run :: "rust_obs \<Rightarrow> (bool \<times> bool) \<times> rs_step list" where
  "lint_rust_run ob =
     (if \<not> cargo_toml_exists ob then ((True, False), [])
      else if cargo_fmt ob = FileNotFoundError then ((False, False), [CargoFmt])
      else ((verify_result (clippy_verify ob),
             rs_changes_after_fmt ob \<or> rs_changes_after_clippy_fix ob),
            [CargoFmt, CargoClippyFix, CargoClippy]))"

definition lint_rust :: "rust_obs \<Rightarrow> bool \<times> bool" where
  "lint_rust ob = fst (lint_rust_run ob)"

definition lint_markdown :: "markdown_obs \<Rightarrow> string list \<Rightarrow> bool \<times> bool" where
  "lint_markdown ob files =
     (if files = [] then (True, False)
      else if \<not> (md_which_bun ob \<or> md_which_npx ob \<or> md_which_markdownlint ob)
      then (True, False)
      else if markdownlint_fix ob = FileNotFoundError then (True, False)
      else (verify_result (markdownlint_verify ob), md_changes_after_fix ob))"

text \<open>
  \<^verbatim>\<open>lint_json\<close>. The template imports \<^verbatim>\<open>shutil\<close>, \<^verbatim>\<open>subprocess\<close>, \<^verbatim>\<open>sys\<close> and \<^verbatim>\<open>Path\<close> at
  module level; \<^verbatim>\<open>json\<close> is imported only inside \<^verbatim>\<open>run_validation_cycle\<close>. With a
  non-empty file list the first pass through the loop reaches \<^verbatim>\<open>json.load(fp)\<close> (or, when
  \<^verbatim>\<open>open\<close> fails, the clause \<^verbatim>\<open>except json.JSONDecodeError\<close>), where the name \<^verbatim>\<open>json\<close> is
  unbound: a \<^verbatim>\<open>NameError\<close> that no clause catches. Nothing after it is reached, neither in
  \<^verbatim>\<open>lint_json\<close> nor in its callers \<^verbatim>\<open>run_linting\<close> and \<^verbatim>\<open>main\<close>.
\<close>

datatype 'a result = Returned 'a | NameError

definition lint_json :: "string list \<Rightarrow> (bool \<times> bool) result" where
  "lint_json files = (if files = [] then Returned (True, False) else NameError)"

definition lint_yaml :: "yaml_obs \<Rightarrow> string list \<Rightarrow> bool \<times> bool" where
  "lint_yaml ob files =
     (if files = [] then (True, False)
      else if \<not> yaml_which_yamllint ob then (True, False)
      else (case yamllint ob of
              Exit rc \<Rightarrow> (if rc \<noteq> 0 \<and> yamllint_stdout_has_error ob then (False, False)
                          else (True, False))
            | TimeoutExpired \<Rightarrow> (True, False)
            | FileNotFoundError \<Rightarrow> (True, False)))"

section \<open>The pre-push hook: tool location\<close>

definition shellcheck_pkg_managers :: "string \<Rightarrow> (string \<times> string list) list" where
  "shellcheck_pkg_managers os =
     (if os = ''darwin'' then
        [(''brew'', [''brew'', ''install'', ''shellcheck'']),
         (''port'', [''sudo'', ''port'', ''install'', ''shellcheck''])]
      else if os = ''linux'' then
        [(''apt-get'', [''sudo'', ''apt-get'', ''install'', ''-y'', ''shellcheck'']),
         (''dnf'', [''sudo'', ''dnf'', ''install'', ''-y'', ''ShellCheck'']),
         (''yum'', [''sudo'', ''yum'', ''install'', ''-y'', ''ShellCheck'']),
         (''pacman'', [''sudo'', ''pacman'', ''-S'', ''--noconfirm'', ''shellcheck'']),
         (''zypper'', [''sudo'', ''zypper'', ''install'', ''-y'', ''ShellCheck'']),
         (''apk'', [''sudo'', ''apk'', ''add'', ''shellcheck'']),
         (''brew'', [''brew'', ''install'', ''shellcheck''])]
      else if os = ''windows'' then
        [(''scoop'', [''scoop'', ''install'', ''shellcheck'']),
         (''choco'', [''choco'', ''install'', ''shellcheck'', ''-y'']),
         (''winget'', [''winget'', ''install'', ''--id'', ''koalaman.shellcheck'', ''-e''])]
      else [])"

text \<open>A loop \<^verbatim>\<open>for pkg_mgr, cmd in ...: if shutil.which(pkg_mgr): ... if returncode == 0:
  return True\<close> returns True exactly when some listed manager is on the path and its
  command exits with 0.\<close>

definition install_chain :: "tool_env \<Rightarrow> (string \<times> string list) list \<Rightarrow> bool" where
  "install_chain t ms = list_ex (\<lambda>(pkg_mgr, cmd). which t pkg_mgr \<and> install_run t cmd = Exit 0) ms"

definition ensure_linter_installed :: "tool_env \<Rightarrow> string \<Rightarrow> bool" where
  "ensure_linter_installed t language =
     (if language = ''python'' then
        (if \<not> which t ''ruff'' \<and> \<not> install_python_tool t ''ruff'' then False else True)
      else if language = ''javascript'' then
        (if local_eslint_exists t \<or> which t ''eslint'' then True
         else if package_json_exists t
                 \<and> list_ex (\<lambda>pkg_mgr. which t pkg_mgr \<and> eslint_install_rc t pkg_mgr = 0)
                      [''bun'', ''npm'', ''pnpm'']
         then True
         else False)
      else if language = ''shell'' then
        (if which t ''shellcheck'' then True
         else install_chain t (shellcheck_pkg_managers (os_type t)))
      else if language = ''go'' then which t ''gofmt''
      else if language = ''rust'' then which t ''cargo''
      else if language = ''markdown'' then
        (if which t ''bun'' \<or> which t ''npx'' then True
         else if which t ''markdownlint'' then True
         else install_chain t
                [(''bun'', [''bun'', ''add'', ''-g'', ''markdownlint-cli'']),
                 (''npm'', [''npm'', ''install'', ''-g'', ''markdownlint-cli''])])
      else if language = ''json'' then True
      else if language = ''yaml'' then
        (if which t ''yamllint'' then True
         else if \<not> install_python_tool t ''yamllint'' then False
         else True)
      else False)"

section \<open>The pre-push hook: the auto-fix loop\<close>

text \<open>The language dispatch of \<^verbatim>\<open>run_linting\<close>; \<open>None\<close> is the final \<^verbatim>\<open>else: continue\<close>.\<close>

definition lint_language ::
  "lint_env \<Rightarrow> string \<Rightarrow> string list \<Rightarrow> (bool \<times> bool) option result" where
  "lint_language e lang files =
     (if lang = ''python'' then Returned (Some (lint_python (python e)))
      else if lang = ''javascript'' then Returned (Some (lint_javascript (javascript e)))
      else if lang = ''shell'' then Returned (Some (lint_shell (shell e) files))
      else if lang = ''go'' then Returned (Some (lint_go (go e)))
      else if lang = ''rust'' then Returned (Some (lint_rust (rust e)))
      else if lang = ''markdown'' then Returned (Some (lint_markdown (markdown e) files))
      else if lang = ''json'' then
        (case lint_json files of Returned r \<Rightarrow> Returned (Some r) | NameError \<Rightarrow> NameError)
      else if lang = ''yaml'' then Returned (Some (lint_yaml (yaml e) files))
      else Returned None)"

text \<open>The body of \<^verbatim>\<open>for lang, files in languages.items()\<close>, threading
  \<^verbatim>\<open>(all_passed, files_changed)\<close>.\<close>

fun run_linting_loop ::
  "lint_env \<Rightarrow> (string \<times> string list) list \<Rightarrow> bool \<times> bool \<Rightarrow> (bool \<times> bool) result" where
  "run_linting_loop e [] acc = Returned acc"
| "run_linting_loop e ((lang, files) # rest) (all_passed, files_changed) =
     (if \<not> ensure_linter_installed (tools e lang) lang
      then run_linting_loop e rest (all_passed, files_changed)
      else (case lint_language e lang files of
              NameError \<Rightarrow> NameError
            | Returned None \<Rightarrow> run_linting_loop e rest (all_passed, files_changed)
            | Returned (Some (passed, changed)) \<Rightarrow>
                run_linting_loop e rest
                  (if \<not> passed then False else all_passed,
                   if changed then True else files_changed)))"

definition run_linting :: "lint_env \<Rightarrow> (bool \<times> bool) result" where
  "run_linting e =
     (if languages e = [] then Returned (True, False)
      else run_linting_loop e (languages e) (True, False))"

text \<open>\<^verbatim>\<open>commit_auto_fixes\<close>: the result, and the commits it creates (each commit is named by
  the iteration number that its message carries).\<close>

definition commit_auto_fixes :: "git_obs \<Rightarrow> nat \<Rightarrow> bool \<times> nat list" where
  "commit_auto_fixes g iteration =
     (if add_rc g \<noteq> 0 then (False, [])
      else if diff_cached_rc g = 0 then (True, [])
      else if commit_rc g \<noteq> 0 then (False, [])
      else (True, [iteration]))"

definition validate_plugin :: "int \<Rightarrow> bool" where
  "validate_plugin rc = (rc = 0)"

fun run_validation_plugins :: "plugin_entry list \<Rightarrow> string list \<Rightarrow> string list" where
  "run_validation_plugins [] found = found"
| "run_validation_plugins (p # ps) found =
     (let name = (case plugin_name p of None \<Rightarrow> ''unknown'' | Some n \<Rightarrow> n) in
      if plugin_path_exists p then
        (if validate_plugin (plugin_validator_rc p) then run_validation_plugins ps found
         else run_validation_plugins ps (found @ [name]))
      else run_validation_plugins ps found)"

definition run_validation_cycle :: "manifests \<Rightarrow> string list" where
  "run_validation_cycle m =
     (case m of
        MarketplaceJson plugins \<Rightarrow> run_validation_plugins plugins []
      | PluginJson rc \<Rightarrow> (if validate_plugin rc then [] else [''plugin''])
      | NoManifest \<Rightarrow> [])"

definition MAX_FIX_ITERATIONS :: nat where
  "MAX_FIX_ITERATIONS = 5"

text \<open>The exits of \<^verbatim>\<open>main\<close>, named after the banner each prints: no validator found
  (return 0 before the loop), a failed commit, lint issues that cannot be auto-fixed,
  validation passed, validation failed (with the plugins at fault), max iterations
  reached; and the traceback of the \<^verbatim>\<open>NameError\<close> that leaves \<^verbatim>\<open>run_linting\<close>, with which
  the interpreter exits with status 1.\<close>

datatype outcome =
    NoValidator
  | CommitFailed
  | BlockedUnfixableLint
  | Success
  | BlockedStructural "string list"
  | Exhausted
  | UncaughtNameError

record hook_result =
  exit_code :: int
  outcome :: outcome
  commits :: "nat list"
  rounds :: nat

text \<open>What one pass through the loop body decides.\<close>

datatype decision = Restart "nat list" | Return int outcome "nat list"

definition iteration_body :: "round_env \<Rightarrow> nat \<Rightarrow> decision" where
  "iteration_body r iteration =
     (case run_linting (lint r) of
        NameError \<Rightarrow> Return 1 UncaughtNameError []
      | Returned (lint_passed, files_changed) \<Rightarrow>
        if files_changed then
          (case commit_auto_fixes (git r) iteration of (ok, created) \<Rightarrow>
             if \<not> ok then Return 1 CommitFailed created else Restart created)
        else if \<not> lint_passed then Return 1 BlockedUnfixableLint []
        else
          (let issues = run_validation_cycle (validation r) in
           if issues = [] then Return 0 Success [] else Return 1 (BlockedStructural issues) []))"

function main_loop :: "hook_env \<Rightarrow> nat \<Rightarrow> nat list \<Rightarrow> hook_result" where
  "main_loop env iteration cs =
     (if iteration < MAX_FIX_ITERATIONS then
        (case iteration_body (round env (iteration + 1)) (iteration + 1) of
           Restart created \<Rightarrow> main_loop env (iteration + 1) (cs @ created)
         | Return code out created \<Rightarrow>
             \<lparr>exit_code = code, outcome = out, commits = cs @ created, rounds = iteration + 1\<rparr>)
      else \<lparr>exit_code = 1, outcome = Exhausted, commits = cs, rounds = iteration\<rparr>)"
  by pat_completeness auto
termination
  by (relation "measure (\<lambda>(env, iteration, cs). MAX_FIX_ITERATIONS - iteration)") auto

declare main_loop.simps [simp del]

text \<open>\<^verbatim>\<open>main\<close> of the template, as it is written: what the function returns when it is
  called.\<close>

definition pre_push_main :: "hook_env \<Rightarrow> hook_result" where
  "pre_push_main env =
     (if \<not> validator_found env
      then \<lparr>exit_code = 0, outcome = NoValidator, commits = [], rounds = 0\<rparr>
      else main_loop env 0 [])"

section \<open>The pre-push hook: example runs\<close>

text \<open>Observations of a run in which every tool is present, every command exits with 0
  and nothing changes; the examples below vary it. In the examples without a manifest the
  validator script is the one found beside the hooks directory,
  \<^verbatim>\<open>.git/scripts/validate_plugin.py\<close>, which \<^verbatim>\<open>detect_languages\<close> does not scan.\<close>

definition idle_python :: python_obs where
  "idle_python =
     \<lparr>ruff_fix = Exit 0, py_changes_after_fix = False, mypy_available = True,
      mypy_run = Done 0, ruff_verify = Done 0, ruff_format = Done 0,
      py_changes_after_format = False\<rparr>"

definition idle_javascript :: javascript_obs where
  "idle_javascript =
     \<lparr>js_which_bun = True, js_which_npx = True, js_local_eslint = True,
      js_which_eslint = True, js_has_config = True, eslint_fix = Exit 0,
      js_changes_after_fix = False, eslint_verify = Exit 0\<rparr>"

definition idle_shell :: shell_obs where
  "idle_shell = \<lparr>shellcheck = (\<lambda>f. Exit 0)\<rparr>"

definition idle_go :: go_obs where
  "idle_go = \<lparr>gofmt = Exit 0, go_changes_after_fmt = False, go_vet = Exit 0\<rparr>"

definition idle_rust :: rust_obs where
  "idle_rust =
     \<lparr>cargo_toml_exists = True, cargo_fmt = Exit 0, rs_changes_after_fmt = False,
      clippy_fix = Done 0, rs_changes_after_clippy_fix = False, clippy_verify = Exit 0\<rparr>"

definition idle_markdown :: markdown_obs where
  "idle_markdown =
     \<lparr>md_which_bun = True, md_which_npx = True, md_which_markdownlint = True,
      markdownlint_fix = Exit 0, md_changes_after_fix = False, markdownlint_verify = Exit 0\<rparr>"

definition idle_yaml :: yaml_obs where
  "idle_yaml =
     \<lparr>yaml_which_yamllint = True, yamllint = Exit 0, yamllint_stdout_has_error = False\<rparr>"

definition all_tools :: tool_env where
  "all_tools =
     \<lparr>which = (\<lambda>t. True), install_python_tool = (\<lambda>t. True), local_eslint_exists = True,
      package_json_exists = True, eslint_install_rc = (\<lambda>m. 0), install_run = (\<lambda>c. Exit 0),
      os_type = ''linux''\<rparr>"

text \<open>Nothing is on the path and every installation attempt fails.\<close>

definition no_tools :: tool_env where
  "no_tools =
     \<lparr>which = (\<lambda>t. False), install_python_tool = (\<lambda>t. False), local_eslint_exists = False,
      package_json_exists = False, eslint_install_rc = (\<lambda>m. 1), install_run = (\<lambda>c. Exit 1),
      os_type = ''linux''\<rparr>"

definition idle_lint :: lint_env where
  "idle_lint =
     \<lparr>languages = [], tools = (\<lambda>l. all_tools), python = idle_python,
      javascript = idle_javascript, shell = idle_shell, go = idle_go, rust = idle_rust,
      markdown = idle_markdown, yaml = idle_yaml\<rparr>"

definition committing_git :: git_obs where
  "committing_git = \<lparr>add_rc = 0, diff_cached_rc = 1, commit_rc = 0\<rparr>"





text \<open>A repository with Python files only and no manifest, on a machine without ruff
  where ruff cannot be installed.\<close>

definition no_ruff_round :: round_env where
  "no_ruff_round =
     \<lparr>lint = idle_lint\<lparr>languages := [(''python'', [''tool.py''])], tools := (\<lambda>l. no_tools)\<rparr>,
      git = committing_git, validation = NoManifest\<rparr>"

definition no_ruff_env :: hook_env where
  "no_ruff_env = \<lparr>validator_found = True, round = (\<lambda>i. no_ruff_round)\<rparr>"

text \<open>The same machine, in a plugin repository: the manifest
  \<^verbatim>\<open>.claude-plugin/plugin.json\<close> makes the json category present.\<close>

definition no_ruff_plugin_round :: round_env where
  "no_ruff_plugin_round =
     \<lparr>lint = idle_lint\<lparr>languages := [(''python'', [''tool.py'']),
                                       (''json'', [''.claude-plugin/plugin.json''])],
                        tools := (\<lambda>l. no_tools)\<rparr>,
      git = committing_git, validation = PluginJson 0\<rparr>"

definition no_ruff_plugin_env :: hook_env where
  "no_ruff_plugin_env = \<lparr>validator_found = True, round = (\<lambda>i. no_ruff_plugin_round)\<rparr>"

text \<open>Ruff is found by \<^verbatim>\<open>shutil.which\<close> but cannot be started (\<^verbatim>\<open>FileNotFoundError\<close> from
  \<^verbatim>\<open>subprocess.run\<close>, as for a dangling link on the path).\<close>

definition ruff_not_startable_round :: round_env where
  "ruff_not_startable_round =
     \<lparr>lint = idle_lint\<lparr>languages := [(''python'', [''tool.py''])],
                        python := idle_python\<lparr>ruff_fix := FileNotFoundError\<rparr>\<rparr>,
      git = committing_git, validation = NoManifest\<rparr>"






section \<open>Strings and paths\<close>

text \<open>
  Text is modelled as a list of ASCII characters. The string methods below are the ones
  the validator calls: \<^verbatim>\<open>startswith\<close>, \<^verbatim>\<open>in\<close>, \<^verbatim>\<open>strip()\<close>, \<^verbatim>\<open>strip('"')\<close>,
  \<^verbatim>\<open>lower()\<close>, \<^verbatim>\<open>replace(old, "")\<close>, \<^verbatim>\<open>split("/")\<close>.
\<close>

definition startswith :: "string \<Rightarrow> string \<Rightarrow> bool" where
  "startswith s p = prefix p s"

definition contains :: "string \<Rightarrow> string \<Rightarrow> bool" where
  "contains s sub = sublist sub s"

definition is_space :: "char \<Rightarrow> bool" where
  "is_space c = (let n = (of_char c :: nat) in (9 \<le> n \<and> n \<le> 13) \<or> (28 \<le> n \<and> n \<le> 32))"

definition strip :: "string \<Rightarrow> string" where
  "strip s = rev (dropWhile is_space (rev (dropWhile is_space s)))"

definition strip_char :: "char \<Rightarrow> string \<Rightarrow> string" where
  "strip_char q s = rev (dropWhile (\<lambda>c. c = q) (rev (dropWhile (\<lambda>c. c = q) s)))"

definition lower_char :: "char \<Rightarrow> char" where
  "lower_char c = (let n = (of_char c :: nat) in if 65 \<le> n \<and> n \<le> 90 then char_of (n + 32) else c)"

definition lower :: "string \<Rightarrow> string" where
  "lower s = map lower_char s"

function remove_all :: "string \<Rightarrow> string \<Rightarrow> string" where
  "remove_all old [] = []"
| "remove_all old (c # cs) =
     (if old \<noteq> [] \<and> prefix old (c # cs) then remove_all old (drop (length old) (c # cs))
      else c # remove_all old cs)"
  by pat_completeness auto
termination
  by (relation "measure (\<lambda>(old, s). length s)") auto

fun split_on :: "char \<Rightarrow> string \<Rightarrow> string list" where
  "split_on sep [] = [[]]"
| "split_on sep (c # cs) =
     (if c = sep then [] # split_on sep cs
      else (case split_on sep cs of [] \<Rightarrow> [[c]] | w # ws \<Rightarrow> (c # w) # ws))"

text \<open>
  \<^verbatim>\<open>pathlib\<close>: a path string is absolute when it starts with a slash; its parts are the
  components between slashes without the empty ones and without \<^verbatim>\<open>.\<close>; \<^verbatim>\<open>base / s\<close> is
  \<open>s\<close> itself when \<open>s\<close> is absolute. \<^verbatim>\<open>resolve()\<close> removes \<^verbatim>\<open>..\<close> components; the
  model has no symbolic links. Every access to the file system resolves its path.
\<close>

definition is_absolute :: "string \<Rightarrow> bool" where
  "is_absolute s = (case s of [] \<Rightarrow> False | c # cs \<Rightarrow> c = CHR ''/'')"

definition path_parts :: "string \<Rightarrow> path" where
  "path_parts s = filter (\<lambda>part. part \<noteq> [] \<and> part \<noteq> ''.'') (split_on (CHR ''/'') s)"

definition joinpath :: "path \<Rightarrow> string \<Rightarrow> path" where
  "joinpath base s = (if is_absolute s then path_parts s else base @ path_parts s)"

definition resolve :: "path \<Rightarrow> path" where
  "resolve p = fold (\<lambda>part acc. if part = ''..'' then butlast acc else acc @ [part]) p []"

text \<open>\<^verbatim>\<open>Path.resolve()\<close> raises \<^verbatim>\<open>ValueError\<close> (embedded null byte) when a component of the
  path holds the NUL character. (A loop of symbolic links makes it raise \<^verbatim>\<open>RuntimeError\<close>;
  the file system modelled below has no links.)\<close>

definition resolve_raises :: "path \<Rightarrow> bool" where
  "resolve_raises p = list_ex (\<lambda>part. CHR 0x00 \<in> set part) p"

section \<open>The file system\<close>

text \<open>
  A node is a regular file or a directory, with what the validator reads of it: the text
  (\<^verbatim>\<open>read_text\<close>, which raises when the node is not \<open>readable\<close>: permission, decoding, or
  a directory), the size in bytes (\<^verbatim>\<open>stat().st_size\<close>) and \<^verbatim>\<open>os.access(p, os.X_OK)\<close>.

  A world is the directory tree together with what \<^verbatim>\<open>configparser\<close> makes of
  \<^verbatim>\<open>.gitmodules\<close> and with the faults of the guarded operations. The sections of
  \<^verbatim>\<open>.gitmodules\<close> come with the result of \<^verbatim>\<open>config.get(section, "path", fallback=name)\<close>.
  An operation outside a \<^verbatim>\<open>try\<close> is taken to succeed: an \<^verbatim>\<open>OSError\<close> there ends the
  program with a traceback, and such runs are outside the model.
\<close>

datatype kind = RegularFile | Directory

record node =
  kind :: kind
  content :: string
  st_size :: nat
  x_ok :: bool
  readable :: bool

datatype cfg_value = Found string | Absent | Raises

datatype fault = NoFault | WriteFails string | ChmodFails string

record world =
  nodes :: "(path \<times> node) list"
  gitmodules_cfg :: "(string \<times> cfg_value) list option"
  install_fault :: "path \<Rightarrow> fault"
  unlink_fails :: "path \<Rightarrow> bool"
  append_fails :: "path \<Rightarrow> bool"

definition lookup :: "world \<Rightarrow> path \<Rightarrow> node option" where
  "lookup w p = map_of (nodes w) (resolve p)"

definition path_exists :: "world \<Rightarrow> path \<Rightarrow> bool" where
  "path_exists w p = (lookup w p \<noteq> None)"

definition is_file :: "world \<Rightarrow> path \<Rightarrow> bool" where
  "is_file w p = (case lookup w p of None \<Rightarrow> False | Some n \<Rightarrow> kind n = RegularFile)"

definition access_x :: "world \<Rightarrow> path \<Rightarrow> bool" where
  "access_x w p = (case lookup w p of None \<Rightarrow> False | Some n \<Rightarrow> x_ok n)"

definition size_of :: "world \<Rightarrow> path \<Rightarrow> nat" where
  "size_of w p = (case lookup w p of None \<Rightarrow> 0 | Some n \<Rightarrow> st_size n)"

definition read_text :: "world \<Rightarrow> path \<Rightarrow> string option" where
  "read_text w p =
     (case lookup w p of
        None \<Rightarrow> None
      | Some n \<Rightarrow> if kind n = RegularFile \<and> readable n then Some (content n) else None)"

text \<open>\<^verbatim>\<open>write_text\<close> keeps the mode of an existing file; a new file is not executable.\<close>

definition write_text :: "world \<Rightarrow> path \<Rightarrow> string \<Rightarrow> world" where
  "write_text w p s =
     w\<lparr>nodes := AList.update (resolve p)
          \<lparr>kind = RegularFile, content = s, st_size = length s,
           x_ok = access_x w p, readable = True\<rparr> (nodes w)\<rparr>"

definition append_text :: "world \<Rightarrow> path \<Rightarrow> string \<Rightarrow> world" where
  "append_text w p s =
     (case lookup w p of
        None \<Rightarrow> write_text w p s
      | Some n \<Rightarrow>
          w\<lparr>nodes := AList.update (resolve p)
               (n\<lparr>content := content n @ s, st_size := st_size n + length s\<rparr>) (nodes w)\<rparr>)"

definition chmod_x :: "world \<Rightarrow> path \<Rightarrow> world" where
  "chmod_x w p =
     (case lookup w p of
        None \<Rightarrow> w
      | Some n \<Rightarrow> w\<lparr>nodes := AList.update (resolve p) (n\<lparr>x_ok := True\<rparr>) (nodes w)\<rparr>)"

definition unlink :: "world \<Rightarrow> path \<Rightarrow> world" where
  "unlink w p = w\<lparr>nodes := AList.delete (resolve p) (nodes w)\<rparr>"

definition new_directory :: node where
  "new_directory =
     \<lparr>kind = Directory, content = [], st_size = 4096, x_ok = True, readable = False\<rparr>"

text \<open>\<^verbatim>\<open>mkdir(parents=True, exist_ok=True)\<close>: every missing directory on the way is created.\<close>

definition mkdir_parents :: "world \<Rightarrow> path \<Rightarrow> world" where
  "mkdir_parents w p =
     fold (\<lambda>q w'. if q = [] \<or> map_of (nodes w') q \<noteq> None then w'
                   else w'\<lparr>nodes := AList.update q new_directory (nodes w')\<rparr>)
          (prefixes (resolve p)) w"

text \<open>The names in a directory that match \<^verbatim>\<open>*.yml\<close>, as \<^verbatim>\<open>workflow_dir.glob("*.yml")\<close>
  lists them.\<close>

definition glob_yml :: "world \<Rightarrow> path \<Rightarrow> path list" where
  "glob_yml w d =
     (if (case lookup w d of None \<Rightarrow> False | Some n \<Rightarrow> kind n = Directory)
      then filter (\<lambda>q. q \<noteq> [] \<and> butlast q = resolve d \<and> suffix ''.yml'' (last q))
             (map fst (nodes w))
      else [])"

section \<open>Templates\<close>

text \<open>
  The texts that the fixer writes. \<^verbatim>\<open>GITIGNORE_ADDITIONS\<close> is given in full. The hook
  scripts, \<^verbatim>\<open>CLIFF_TOML\<close> and \<^verbatim>\<open>GITHUB_WORKFLOW\<close> are parameters of the model: in the source
  they are string constants of 1129 to 40586 characters.
\<close>

record templates =
  PRE_COMMIT_HOOK :: string
  PRE_PUSH_HOOK :: string
  POST_REWRITE_HOOK :: string
  POST_MERGE_HOOK :: string
  CLIFF_TOML :: string
  GITHUB_WORKFLOW :: string

definition newline :: string where
  "newline = [CHR 0x0A]"

definition GITIGNORE_ADDITIONS :: string where
  "GITIGNORE_ADDITIONS =
     newline @ concat (map (\<lambda>l. l @ newline)
       [''# Python'', ''__pycache__/'', ''*.py[cod]'', ''*$py.class'', ''*.so'', ''.Python'',
        ''.venv/'', ''venv/'', ''ENV/'', [],
        ''# IDE'', ''.idea/'', ''.vscode/'', ''*.swp'', ''*.swo'', [],
        ''# OS'', ''.DS_Store'', ''Thumbs.db'', [],
        ''# Build artifacts'', ''dist/'', ''build/'', ''*.egg-info/'', [],
        ''# Logs'', ''*.log'', ''logs/'', [],
        ''# Dev folders'', ''docs_dev/'', ''scripts_dev/'', ''tests_dev/''])"

section \<open>The pre-push hook: the installed script\<close>

text \<open>
  \<^verbatim>\<open>PRE_PUSH_HOOK\<close> is a triple-quoted literal without the \<^verbatim>\<open>r\<close> prefix, so the text that
  \<^verbatim>\<open>_fix_hooks\<close> writes to \<^verbatim>\<open>.git/hooks/pre-push\<close> is the source text after the escape
  processing of Python string literals: a backslash followed by \<^verbatim>\<open>n\<close> becomes a line feed,
  two backslashes become one, an escaped quote becomes the quote, a backslash before a
  line feed removes both. The other recognised escapes (octal, hex, \<^verbatim>\<open>t\<close>, \<^verbatim>\<open>r\<close> and so
  on) do not occur in the lines studied here and are left as they are written.
\<close>

definition dq :: char where
  "dq = CHR 0x22"

definition sq :: char where
  "sq = CHR 0x27"

definition bs :: char where
  "bs = CHR 0x5C"

definition lf :: char where
  "lf = CHR 0x0A"

fun unescape :: "string \<Rightarrow> string" where
  "unescape [] = []"
| "unescape [c] = [c]"
| "unescape (c # d # cs) =
     (if c = bs then
        (if d = CHR ''n'' then lf # unescape cs
         else if d = bs \<or> d = dq \<or> d = sq then d # unescape cs
         else if d = lf then unescape cs
         else c # unescape (d # cs))
      else c # unescape (d # cs))"

text \<open>
  The interpreter tokenizes the whole script before it runs any of it. A literal opened
  with one quote character must close on its physical line, unless the line ends with a
  backslash; a line that ends inside such a literal is a \<^verbatim>\<open>SyntaxError\<close> (unterminated
  string literal). \<open>scan_line\<close> reads one physical line that starts outside any literal and
  tells whether it ends inside one. A \<^verbatim>\<open>#\<close> outside a literal starts a comment; a
  triple-quoted literal may run over several lines and is not followed further.
\<close>

datatype lex_state = Code | InString char

fun scan_line :: "lex_state \<Rightarrow> string \<Rightarrow> bool" where
  "scan_line Code [] = False"
| "scan_line (InString q) [] = True"
| "scan_line Code (c # cs) =
     (if c = CHR ''#'' then False
      else if c = dq \<or> c = sq then
        (if take 2 cs = [c, c] then False else scan_line (InString c) cs)
      else scan_line Code cs)"
| "scan_line (InString q) [c] = (if c = q \<or> c = bs then False else True)"
| "scan_line (InString q) (c # d # cs) =
     (if c = bs then scan_line (InString q) cs
      else if c = q then scan_line Code (d # cs)
      else scan_line (InString q) (d # cs))"

text \<open>
  The six lines of the template that call \<^verbatim>\<open>split\<close> on a line feed, with their line numbers
  in \<^verbatim>\<open>setup_plugin_pipeline.py\<close>, as they stand in the source file. Lines 385
  (\<^verbatim>\<open>has_uncommitted_changes\<close>) and 797 (\<^verbatim>\<open>lint_python\<close>) write the backslash twice; lines
  1081 and 1084 (\<^verbatim>\<open>lint_markdown\<close>) and 1191 and 1198 (\<^verbatim>\<open>lint_yaml\<close>) write it once. All six
  are statements of function bodies, outside any docstring.
\<close>

definition indent :: "nat \<Rightarrow> string" where
  "indent n = replicate n (CHR '' '')"

definition split_call_lines :: "(nat \<times> string) list" where
  "split_call_lines =
     [(385, indent 8 @ ''lines = [l for l in result.stdout.strip().split(''
              @ [dq, bs, bs, CHR ''n'', dq] @ '') if l and not l.startswith(''
              @ [dq] @ ''??'' @ [dq] @ '')]''),
      (797, indent 16 @ ''for line in result.stdout.strip().split(''
              @ [dq, bs, bs, CHR ''n'', dq] @ '')[:10]:''),
      (1081, indent 12 @ ''lines = result.stdout.strip().split(''
              @ [dq, bs, CHR ''n'', dq] @ '')[:5]''),
      (1084, indent 12 @ ''if len(result.stdout.strip().split(''
              @ [dq, bs, CHR ''n'', dq] @ '')) > 5:''),
      (1191, indent 12 @ ''lines = result.stdout.strip().split(''
              @ [dq, bs, CHR ''n'', dq] @ '')[:5] if result.stdout else []''),
      (1198, indent 12 @ ''total_lines = len(result.stdout.strip().split(''
              @ [dq, bs, CHR ''n'', dq] @ '')) if result.stdout else 0'')]"

text \<open>The physical lines that a source line of the template becomes in the installed
  script, and whether one of them ends inside a string literal.\<close>

definition installed_lines :: "string \<Rightarrow> string list" where
  "installed_lines src = split_on lf (unescape src)"

definition breaks_literal :: "string \<Rightarrow> bool" where
  "breaks_literal src = list_ex (scan_line Code) (installed_lines src)"

text \<open>The installed script compiles only if none of its lines ends inside a string
  literal; of the template, the six lines above are examined.\<close>

definition script_compiles :: bool where
  "script_compiles = (\<not> list_ex (\<lambda>(n, src). breaks_literal src) split_call_lines)"

text \<open>
  A run of the installed hook, \<^verbatim>\<open>.git/hooks/pre-push\<close>: the interpreter compiles the script
  and, if that succeeds, runs it, which ends in \<^verbatim>\<open>sys.exit(main())\<close>. A script that does
  not compile ends with a \<^verbatim>\<open>SyntaxError\<close> and exit status 1 before its first statement;
  no linter is called and no commit is made.
\<close>

datatype script_result = SyntaxError | Ran hook_result

definition run_pre_push_hook :: "hook_env \<Rightarrow> script_result" where
  "run_pre_push_hook env = (if script_compiles then Ran (pre_push_main env) else SyntaxError)"




section \<open>PipelineSetup: validation\<close>

text \<open>The object: \<^verbatim>\<open>self.project_path\<close> (resolved), \<^verbatim>\<open>self.dry_run\<close>, \<^verbatim>\<open>self.verbose\<close>,
  \<^verbatim>\<open>self.status\<close>. The methods take the object and return it with its new status.\<close>

record PipelineSetup =
  setup_path :: path
  dry_run :: bool
  verbose :: bool
  status :: PipelineStatus

text \<open>\<^verbatim>\<open>__init__\<close>\<close>

definition init_setup :: "path \<Rightarrow> bool \<Rightarrow> bool \<Rightarrow> PipelineSetup" where
  "init_setup p dry verb =
     \<lparr>setup_path = p, dry_run = dry, verbose = verb, status = new_status p\<rparr>"

definition add_issue :: "PipelineIssue \<Rightarrow> PipelineSetup \<Rightarrow> PipelineSetup" where
  "add_issue i s = s\<lparr>status := (status s)\<lparr>issues := issues (status s) @ [i]\<rparr>\<rparr>"

text \<open>The loop of \<^verbatim>\<open>_detect_submodules\<close> over \<^verbatim>\<open>config.sections()\<close>; a
  \<^verbatim>\<open>configparser.Error\<close> from \<^verbatim>\<open>config.get\<close> ends it, keeping what was appended.\<close>

fun detect_submodules_loop ::
  "world \<Rightarrow> path \<Rightarrow> (string \<times> cfg_value) list \<Rightarrow> string list \<Rightarrow> string list" where
  "detect_submodules_loop w pp [] subs = subs"
| "detect_submodules_loop w pp ((section, v) # rest) subs =
     (if startswith section ''submodule '' then
        (let name = strip_char (CHR 0x22) (remove_all ''submodule '' section) in
         case v of
           Raises \<Rightarrow> subs
         | Absent \<Rightarrow>
             detect_submodules_loop w pp rest
               (if path_exists w (joinpath pp name) then subs @ [name] else subs)
         | Found p \<Rightarrow>
             detect_submodules_loop w pp rest
               (if path_exists w (joinpath pp p) then subs @ [p] else subs))
      else detect_submodules_loop w pp rest subs)"

definition detect_submodules :: "world \<Rightarrow> PipelineSetup \<Rightarrow> PipelineSetup" where
  "detect_submodules w s =
     (if \<not> path_exists w (setup_path s @ [''.gitmodules'']) then s
      else (case gitmodules_cfg w of
              None \<Rightarrow> s
            | Some sections \<Rightarrow>
                s\<lparr>status := (status s)\<lparr>submodules :=
                     detect_submodules_loop w (setup_path s) sections (submodules (status s))\<rparr>\<rparr>))"

definition detect_project_type :: "world \<Rightarrow> PipelineSetup \<Rightarrow> PipelineSetup" where
  "detect_project_type w s =
     (let marketplace_json = setup_path s @ [''.claude-plugin'', ''marketplace.json''];
          plugin_json = setup_path s @ [''.claude-plugin'', ''plugin.json''];
          is_submodule = is_file w (setup_path s @ [''.git''])
      in
      if path_exists w marketplace_json then
        detect_submodules w (s\<lparr>status := (status s)\<lparr>project_type := MARKETPLACE\<rparr>\<rparr>)
      else if path_exists w plugin_json then
        (if is_submodule then s\<lparr>status := (status s)\<lparr>project_type := PLUGIN_IN_MARKETPLACE\<rparr>\<rparr>
         else s\<lparr>status := (status s)\<lparr>project_type := PLUGIN\<rparr>\<rparr>)
      else s\<lparr>status := (status s)\<lparr>project_type := UNKNOWN\<rparr>\<rparr>)"

text \<open>\<^verbatim>\<open>_get_hooks_dir\<close>: \<^verbatim>\<open>read_text\<close> raising \<^verbatim>\<open>OSError\<close> or \<^verbatim>\<open>UnicodeDecodeError\<close> is
  \<open>None\<close>; \<^verbatim>\<open>content[8:]\<close> is \<open>drop 8 txt\<close>.\<close>

definition get_hooks_dir :: "world \<Rightarrow> PipelineSetup \<Rightarrow> path" where
  "get_hooks_dir w s =
     (let git_path = setup_path s @ [''.git''] in
      if is_file w git_path then
        (case read_text w git_path of
           None \<Rightarrow> git_path @ [''hooks'']
         | Some raw \<Rightarrow>
             (let txt = strip raw in
              if startswith txt ''gitdir: ''
              then resolve (joinpath (setup_path s) (drop 8 txt)) @ [''hooks'']
              else git_path @ [''hooks'']))
      else git_path @ [''hooks''])"

text \<open>The call \<^verbatim>\<open>git_dir.resolve()\<close> stands inside the \<^verbatim>\<open>try\<close>, whose clause catches
  \<^verbatim>\<open>OSError\<close> and \<^verbatim>\<open>UnicodeDecodeError\<close> only: the \<^verbatim>\<open>ValueError\<close> of \<^verbatim>\<open>resolve\<close> leaves
  \<^verbatim>\<open>_get_hooks_dir\<close>. \<open>get_hooks_dir_raises\<close> tells when that happens; \<open>get_hooks_dir\<close> is the
  value returned in the other runs. The callers do not catch the exception either, so a
  run in which it is raised ends there, and the definitions of the callers describe the
  runs in which it is not.\<close>

definition get_hooks_dir_raises :: "world \<Rightarrow> PipelineSetup \<Rightarrow> bool" where
  "get_hooks_dir_raises w s =
     (let git_path = setup_path s @ [''.git''] in
      if is_file w git_path then
        (case read_text w git_path of
           None \<Rightarrow> False
         | Some raw \<Rightarrow>
             (let txt = strip raw in
              if startswith txt ''gitdir: ''
              then resolve_raises (joinpath (setup_path s) (drop 8 txt))
              else False))
      else False)"

definition required_hooks :: "(string \<times> string) list" where
  "required_hooks =
     [(''pre-commit'', ''Lint and validate before commit''),
      (''pre-push'', ''Full validation before push''),
      (''post-rewrite'', ''Changelog after rebase/amend''),
      (''post-merge'', ''Changelog after merge'')]"

fun validate_hooks_loop ::
  "world \<Rightarrow> path \<Rightarrow> (string \<times> string) list \<Rightarrow> PipelineSetup \<Rightarrow> PipelineSetup" where
  "validate_hooks_loop w hooks_dir [] s = s"
| "validate_hooks_loop w hooks_dir ((hook_name, description) # rest) s =
     (let hook_path = hooks_dir @ [hook_name];
          s1 = s\<lparr>status := (status s)\<lparr>hooks_installed :=
                  (hooks_installed (status s))(hook_name \<mapsto> path_exists w hook_path)\<rparr>\<rparr>;
          s2 = (if \<not> path_exists w hook_path then
                  add_issue
                    (mk_issue MAJOR ''hooks''
                       (''Missing '' @ hook_name @ '' hook ('' @ description @ '')'') True
                       (''Install '' @ hook_name @ '' hook'')) s1
                else if \<not> access_x w hook_path then
                  add_issue
                    (mk_issue MAJOR ''hooks'' (hook_name @ '' hook is not executable'') True
                       (''Make '' @ hook_name @ '' hook executable'')) s1
                else s1)
      in validate_hooks_loop w hooks_dir rest s2)"

definition validate_hooks :: "world \<Rightarrow> PipelineSetup \<Rightarrow> PipelineSetup" where
  "validate_hooks w s =
     (let hooks_dir = get_hooks_dir w s;
          post_commit = hooks_dir @ [''post-commit''];
          s1 = (if path_exists w post_commit then
                  add_issue
                    (mk_issue MAJOR ''hooks'' ''post-commit hook exists (causes rebase conflicts)''
                       True ''Remove post-commit hook, use post-rewrite instead'') s
                else s)
      in validate_hooks_loop w hooks_dir required_hooks s1)"

definition config_file_specs :: "(string \<times> string \<times> IssueLevel) list" where
  "config_file_specs =
     [(''cliff.toml'', ''Changelog generation config'', MINOR),
      (''.gitignore'', ''Git ignore patterns'', MINOR)]"

fun validate_config_loop ::
  "world \<Rightarrow> (string \<times> string \<times> IssueLevel) list \<Rightarrow> PipelineSetup \<Rightarrow> PipelineSetup" where
  "validate_config_loop w [] s = s"
| "validate_config_loop w ((filename, description, lvl) # rest) s =
     (let file_path = setup_path s @ [filename];
          s1 = s\<lparr>status := (status s)\<lparr>config_files :=
                  (config_files (status s))(filename \<mapsto> path_exists w file_path)\<rparr>\<rparr>;
          s2 = (if \<not> path_exists w file_path then
                  add_issue
                    (mk_issue lvl ''config'' (''Missing '' @ filename @ '' ('' @ description @ '')'')
                       True (''Create '' @ filename)) s1
                else s1)
      in validate_config_loop w rest s2)"

text \<open>The search for a workflow that mentions validation: a file that cannot be read is
  passed over.\<close>

definition has_validation_workflow :: "world \<Rightarrow> path \<Rightarrow> bool" where
  "has_validation_workflow w workflow_dir =
     (path_exists w workflow_dir \<and>
      list_ex (\<lambda>wf. case read_text w wf of
                       None \<Rightarrow> False
                     | Some txt \<Rightarrow>
                         contains (lower txt) ''validate'' \<or> contains (lower txt) ''plugin'')
              (glob_yml w workflow_dir))"

definition validate_config_files :: "world \<Rightarrow> PipelineSetup \<Rightarrow> PipelineSetup" where
  "validate_config_files w s =
     (let s1 = validate_config_loop w config_file_specs s;
          workflow_dir = setup_path s @ [''.github'', ''workflows''];
          found = has_validation_workflow w workflow_dir;
          s2 = s1\<lparr>status := (status s1)\<lparr>config_files :=
                  (config_files (status s1))(''github_workflow'' \<mapsto> found)\<rparr>\<rparr>
      in
      if \<not> found then
        add_issue
          (mk_issue MINOR ''ci'' ''No GitHub Actions validation workflow found'' True
             ''Create .github/workflows/validate.yml'') s2
      else s2)"

text \<open>The issues that \<^verbatim>\<open>_validate_submodule_hooks\<close> appends for one submodule.\<close>

definition submodule_issues :: "world \<Rightarrow> path \<Rightarrow> string \<Rightarrow> PipelineIssue list" where
  "submodule_issues w pp submodule =
     (let hooks_dir = joinpath (pp @ [''.git'', ''modules'']) submodule @ [''hooks''] in
      if \<not> path_exists w hooks_dir then
        [mk_issue MINOR ''submodules''
           (''Submodule '' @ submodule @ '' hooks directory not found'') False []]
      else
        (if path_exists w (hooks_dir @ [''post-commit'']) then
           [mk_issue MAJOR ''submodules''
              (''Submodule '' @ submodule @ '' has post-commit hook (causes rebase conflicts)'')
              True (''Remove post-commit, install post-rewrite for '' @ submodule)]
         else [])
        @ concat (map (\<lambda>hook.
             if \<not> path_exists w (hooks_dir @ [hook]) then
               [mk_issue MINOR ''submodules''
                  (''Submodule '' @ submodule @ '' missing '' @ hook @ '' hook'') True
                  (''Install '' @ hook @ '' hook for '' @ submodule)]
             else []) [''post-rewrite'', ''post-merge'']))"

definition validate_submodule_hooks :: "world \<Rightarrow> PipelineSetup \<Rightarrow> PipelineSetup" where
  "validate_submodule_hooks w s =
     s\<lparr>status := (status s)\<lparr>issues :=
          issues (status s)
          @ concat (map (submodule_issues w (setup_path s)) (submodules (status s)))\<rparr>\<rparr>"

definition validate :: "world \<Rightarrow> PipelineSetup \<Rightarrow> PipelineSetup" where
  "validate w s =
     (let s1 = detect_project_type w s in
      if project_type (status s1) = UNKNOWN then
        add_issue
          (mk_issue CRITICAL ''project''
             ''Not a valid plugin or marketplace (missing .claude-plugin/plugin.json or marketplace.json)''
             False []) s1
      else
        (let s2 = (if \<not> path_exists w (setup_path s1 @ [''.git'']) then
                     add_issue
                       (mk_issue CRITICAL ''git'' ''Not a git repository'' True
                          ''Initialize git repository'') s1
                   else s1);
             s3 = validate_hooks w s2;
             s4 = validate_config_files w s3
         in
         if project_type (status s4) = MARKETPLACE then validate_submodule_hooks w s4 else s4))"

section \<open>PipelineSetup: fixing\<close>

definition hook_is_valid :: "world \<Rightarrow> path \<Rightarrow> bool" where
  "hook_is_valid w hook_path =
     (if \<not> path_exists w hook_path then False
      else if \<not> access_x w hook_path then False
      else if size_of w hook_path < 100 then False
      else True)"

definition hook_templates :: "templates \<Rightarrow> (string \<times> string) list" where
  "hook_templates tp =
     [(''pre-commit'', PRE_COMMIT_HOOK tp),
      (''pre-push'', PRE_PUSH_HOOK tp),
      (''post-rewrite'', POST_REWRITE_HOOK tp),
      (''post-merge'', POST_MERGE_HOOK tp)]"

text \<open>The loop of \<^verbatim>\<open>_fix_hooks\<close> over the four hooks, threading the count, the object
  (a failed installation appends a Critical issue) and the file system.\<close>

fun fix_hooks_loop ::
  "path \<Rightarrow> (string \<times> string) list \<Rightarrow> nat \<times> PipelineSetup \<times> world
     \<Rightarrow> nat \<times> PipelineSetup \<times> world" where
  "fix_hooks_loop hooks_dir [] acc = acc"
| "fix_hooks_loop hooks_dir ((name, text) # rest) (fixed, s, w) =
     (let hook_path = hooks_dir @ [name] in
      if \<not> path_exists w hook_path \<or> \<not> hook_is_valid w hook_path then
        (if dry_run s then fix_hooks_loop hooks_dir rest (fixed, s, w)
         else
           (case install_fault w hook_path of
              NoFault \<Rightarrow>
                fix_hooks_loop hooks_dir rest
                  (fixed + 1, s, chmod_x (write_text w hook_path text) hook_path)
            | WriteFails e \<Rightarrow>
                fix_hooks_loop hooks_dir rest
                  (fixed,
                   add_issue
                     (mk_issue CRITICAL ''hooks''
                        (''Permission denied installing '' @ name @ '' hook: '' @ e) False []) s,
                   w)
            | ChmodFails e \<Rightarrow>
                fix_hooks_loop hooks_dir rest
                  (fixed,
                   add_issue
                     (mk_issue CRITICAL ''hooks''
                        (''Permission denied installing '' @ name @ '' hook: '' @ e) False []) s,
                   write_text w hook_path text)))
      else fix_hooks_loop hooks_dir rest (fixed, s, w))"

definition fix_hooks :: "templates \<Rightarrow> PipelineSetup \<Rightarrow> world \<Rightarrow> nat \<times> PipelineSetup \<times> world" where
  "fix_hooks tp s w =
     (let hooks_dir = get_hooks_dir w s;
          w1 = mkdir_parents w hooks_dir;
          post_commit = hooks_dir @ [''post-commit''];
          (fixed, w2) =
             (if path_exists w1 post_commit
              then (1, if dry_run s then w1 else unlink w1 post_commit)
              else (0, w1))
      in fix_hooks_loop hooks_dir (hook_templates tp) (fixed, s, w2))"

definition gitignore_markers :: "string list" where
  "gitignore_markers = [''__pycache__'', ''.mypy_cache'', ''docs_dev/'']"

definition fix_config_files :: "templates \<Rightarrow> PipelineSetup \<Rightarrow> world \<Rightarrow> nat \<times> world" where
  "fix_config_files tp s w =
     (let cliff_toml = setup_path s @ [''cliff.toml''];
          (fixed1, w1) =
             (if \<not> path_exists w cliff_toml
              then (1, if dry_run s then w else write_text w cliff_toml (CLIFF_TOML tp))
              else (0, w));
          gitignore = setup_path s @ [''.gitignore''];
          (fixed2, w2) =
             (if \<not> path_exists w1 gitignore
              then (fixed1 + 1,
                    if dry_run s then w1 else write_text w1 gitignore GITIGNORE_ADDITIONS)
              else
                (case read_text w1 gitignore of
                   None \<Rightarrow> (fixed1, w1)
                 | Some txt \<Rightarrow>
                     (let needs_update = \<not> list_all (\<lambda>marker. contains txt marker) gitignore_markers in
                      if needs_update then
                        (if dry_run s then (fixed1 + 1, w1)
                         else if append_fails w1 gitignore then (fixed1, w1)
                         else (fixed1 + 1, append_text w1 gitignore (newline @ GITIGNORE_ADDITIONS)))
                      else (fixed1, w1))));
          workflow_dir = setup_path s @ [''.github'', ''workflows''];
          workflow_file = workflow_dir @ [''validate.yml'']
      in
      if \<not> path_exists w2 workflow_file
      then (fixed2 + 1,
            if dry_run s then w2
            else write_text (mkdir_parents w2 workflow_dir) workflow_file (GITHUB_WORKFLOW tp))
      else (fixed2, w2))"

text \<open>The inner loop of \<^verbatim>\<open>_fix_submodule_hooks\<close> over post-rewrite and post-merge.\<close>

fun fix_submodule_install ::
  "bool \<Rightarrow> path \<Rightarrow> (string \<times> string) list \<Rightarrow> nat \<times> world \<Rightarrow> nat \<times> world" where
  "fix_submodule_install dry hooks_dir [] acc = acc"
| "fix_submodule_install dry hooks_dir ((name, text) # rest) (fixed, w) =
     (let hook_path = hooks_dir @ [name] in
      if \<not> path_exists w hook_path then
        (if dry then fix_submodule_install dry hooks_dir rest (fixed, w)
         else
           (case install_fault w hook_path of
              NoFault \<Rightarrow>
                fix_submodule_install dry hooks_dir rest
                  (fixed + 1, chmod_x (write_text w hook_path text) hook_path)
            | WriteFails e \<Rightarrow> fix_submodule_install dry hooks_dir rest (fixed, w)
            | ChmodFails e \<Rightarrow>
                fix_submodule_install dry hooks_dir rest (fixed, write_text w hook_path text)))
      else fix_submodule_install dry hooks_dir rest (fixed, w))"

fun fix_submodule_loop ::
  "templates \<Rightarrow> PipelineSetup \<Rightarrow> string list \<Rightarrow> nat \<times> world \<Rightarrow> nat \<times> world" where
  "fix_submodule_loop tp s [] acc = acc"
| "fix_submodule_loop tp s (submodule # rest) (fixed, w) =
     (let hooks_dir = joinpath (setup_path s @ [''.git'', ''modules'']) submodule @ [''hooks''] in
      if \<not> path_exists w hooks_dir then fix_submodule_loop tp s rest (fixed, w)
      else
        (let post_commit = hooks_dir @ [''post-commit''];
             (fixed1, w1) =
                (if path_exists w post_commit then
                   (if dry_run s then (fixed, w)
                    else if unlink_fails w post_commit then (fixed, w)
                    else (fixed + 1, unlink w post_commit))
                 else (fixed, w))
         in fix_submodule_loop tp s rest
              (fix_submodule_install (dry_run s) hooks_dir
                 [(''post-rewrite'', POST_REWRITE_HOOK tp), (''post-merge'', POST_MERGE_HOOK tp)]
                 (fixed1, w1))))"

definition fix_submodule_hooks :: "templates \<Rightarrow> PipelineSetup \<Rightarrow> world \<Rightarrow> nat \<times> world" where
  "fix_submodule_hooks tp s w = fix_submodule_loop tp s (submodules (status s)) (0, w)"

text \<open>\<^verbatim>\<open>fix\<close> (the name is a keyword of Isabelle, hence \<open>fix_all\<close>): the count it
  returns, the object and the file system afterwards.\<close>

definition fix_all :: "templates \<Rightarrow> PipelineSetup \<Rightarrow> world \<Rightarrow> nat \<times> PipelineSetup \<times> world" where
  "fix_all tp s w =
     (if project_type (status s) = UNKNOWN then (1, s, w)
      else
        (case fix_hooks tp s w of (n1, s1, w1) \<Rightarrow>
         case fix_config_files tp s1 w1 of (n2, w2) \<Rightarrow>
           if project_type (status s1) = MARKETPLACE then
             (case fix_submodule_hooks tp s1 w2 of (n3, w3) \<Rightarrow> (n1 + n2 + n3, s1, w3))
           else (n1 + n2, s1, w2)))"

section \<open>The command line\<close>






section \<open>Example trees\<close>

definition file_node :: "string \<Rightarrow> bool \<Rightarrow> node" where
  "file_node s x =
     \<lparr>kind = RegularFile, content = s, st_size = length s, x_ok = x, readable = True\<rparr>"

definition tree :: "(path \<times> node) list \<Rightarrow> world" where
  "tree ns =
     \<lparr>nodes = ns, gitmodules_cfg = None, install_fault = (\<lambda>p. NoFault),
      unlink_fails = (\<lambda>p. False), append_fails = (\<lambda>p. False)\<rparr>"

text \<open>Stand-ins for the template parameters: hook scripts of 120 bytes (the fixer reads
  only the size of a hook), and the first line of \<^verbatim>\<open>GITHUB_WORKFLOW\<close>.\<close>

definition example_templates :: templates where
  "example_templates =
     \<lparr>PRE_COMMIT_HOOK = replicate 120 (CHR ''c''),
      PRE_PUSH_HOOK = replicate 120 (CHR ''p''),
      POST_REWRITE_HOOK = replicate 120 (CHR ''r''),
      POST_MERGE_HOOK = replicate 120 (CHR ''m''),
      CLIFF_TOML = ''# git-cliff configuration for changelog generation'',
      GITHUB_WORKFLOW = ''name: Plugin Validation''\<rparr>"


text \<open>An existing directory that is neither a plugin nor a marketplace.\<close>

definition bare_tree :: world where
  "bare_tree = tree [([''repo''], new_directory)]"

text \<open>A standalone plugin in a git repository, with no hooks and no configuration files.\<close>

definition plugin_tree :: world where
  "plugin_tree =
     tree [([''repo''], new_directory),
           ([''repo'', ''.claude-plugin''], new_directory),
           ([''repo'', ''.claude-plugin'', ''plugin.json''], file_node ''{}'' False),
           ([''repo'', ''.git''], new_directory)]"

text \<open>A fully configured plugin whose pre-commit hook is an executable stub of 10 bytes.\<close>

definition stub_hook_tree :: world where
  "stub_hook_tree =
     tree [([''repo''], new_directory),
           ([''repo'', ''.claude-plugin''], new_directory),
           ([''repo'', ''.claude-plugin'', ''plugin.json''], file_node ''{}'' False),
           ([''repo'', ''.git''], new_directory),
           ([''repo'', ''.git'', ''hooks''], new_directory),
           ([''repo'', ''.git'', ''hooks'', ''pre-commit''], file_node (''#!/bin/sh'' @ newline) True),
           ([''repo'', ''.git'', ''hooks'', ''pre-push''], file_node (replicate 120 (CHR ''p'')) True),
           ([''repo'', ''.git'', ''hooks'', ''post-rewrite''], file_node (replicate 120 (CHR ''r'')) True),
           ([''repo'', ''.git'', ''hooks'', ''post-merge''], file_node (replicate 120 (CHR ''m'')) True),
           ([''repo'', ''cliff.toml''], file_node ''# git-cliff'' False),
           ([''repo'', ''.gitignore''], file_node ''__pycache__/ .mypy_cache/ docs_dev/'' False),
           ([''repo'', ''.github''], new_directory),
           ([''repo'', ''.github'', ''workflows''], new_directory),
           ([''repo'', ''.github'', ''workflows'', ''validate.yml''],
              file_node ''name: Plugin Validation'' False)]"

text \<open>A plugin checked out as a submodule: \<^verbatim>\<open>.git\<close> is a file that points to the git
  directory inside the marketplace.\<close>

definition submodule_tree :: world where
  "submodule_tree =
     tree [([''market''], new_directory),
           ([''market'', ''plug''], new_directory),
           ([''market'', ''plug'', ''.claude-plugin''], new_directory),
           ([''market'', ''plug'', ''.claude-plugin'', ''plugin.json''], file_node ''{}'' False),
           ([''market'', ''plug'', ''.git''],
              file_node (''gitdir: ../.git/modules/plug'' @ newline) False)]"

text \<open>The same checkout with a \<^verbatim>\<open>.git\<close> file that holds no \<^verbatim>\<open>gitdir:\<close> line, and with
  one that cannot be read.\<close>

definition odd_git_file_tree :: world where
  "odd_git_file_tree =
     tree [([''market''], new_directory),
           ([''market'', ''plug''], new_directory),
           ([''market'', ''plug'', ''.git''], file_node ''not a pointer'' False)]"

definition unreadable_git_file_tree :: world where
  "unreadable_git_file_tree =
     tree [([''market''], new_directory),
           ([''market'', ''plug''], new_directory),
           ([''market'', ''plug'', ''.git''],
              (file_node ''gitdir: ../.git/modules/plug'' False)\<lparr>readable := False\<rparr>)]"

text \<open>A \<^verbatim>\<open>.git\<close> file whose \<^verbatim>\<open>gitdir:\<close> line holds a NUL character.\<close>

definition nul_git_file_tree :: world where
  "nul_git_file_tree =
     tree [([''market''], new_directory),
           ([''market'', ''plug''], new_directory),
           ([''market'', ''plug'', ''.git''],
              file_node (''gitdir: ../.git/mod'' @ [CHR 0x00] @ ''ules/plug'') False)]"

section \<open>What one validation pass finds\<close>

text \<open>Closed forms of the loops of \<^verbatim>\<open>validate\<close>, used in the proofs: the issues and the
  flags that a pass adds are determined by the tree, the project path and, for a
  marketplace, the submodule list.\<close>

definition hook_issue :: "world \<Rightarrow> path \<Rightarrow> string \<times> string \<Rightarrow> PipelineIssue list" where
  "hook_issue w hooks_dir h =
     (case h of (hook_name, description) \<Rightarrow>
        if \<not> path_exists w (hooks_dir @ [hook_name]) then
          [mk_issue MAJOR ''hooks''
             (''Missing '' @ hook_name @ '' hook ('' @ description @ '')'') True
             (''Install '' @ hook_name @ '' hook'')]
        else if \<not> access_x w (hooks_dir @ [hook_name]) then
          [mk_issue MAJOR ''hooks'' (hook_name @ '' hook is not executable'') True
             (''Make '' @ hook_name @ '' hook executable'')]
        else [])"

definition hook_flags :: "world \<Rightarrow> path \<Rightarrow> (string \<times> string) list \<Rightarrow> (string \<rightharpoonup> bool)" where
  "hook_flags w hooks_dir hs =
     map_of (rev (map (\<lambda>(hook_name, description).
                          (hook_name, path_exists w (hooks_dir @ [hook_name]))) hs))"

definition hooks_findings :: "world \<Rightarrow> path \<Rightarrow> PipelineIssue list" where
  "hooks_findings w hooks_dir =
     (if path_exists w (hooks_dir @ [''post-commit'']) then
        [mk_issue MAJOR ''hooks'' ''post-commit hook exists (causes rebase conflicts)''
           True ''Remove post-commit hook, use post-rewrite instead'']
      else [])
     @ concat (map (hook_issue w hooks_dir) required_hooks)"

definition config_issue :: "world \<Rightarrow> path \<Rightarrow> string \<times> string \<times> IssueLevel \<Rightarrow> PipelineIssue list" where
  "config_issue w pp c =
     (case c of (filename, description, lvl) \<Rightarrow>
        if \<not> path_exists w (pp @ [filename]) then
          [mk_issue lvl ''config'' (''Missing '' @ filename @ '' ('' @ description @ '')'')
             True (''Create '' @ filename)]
        else [])"

definition config_flags ::
  "world \<Rightarrow> path \<Rightarrow> (string \<times> string \<times> IssueLevel) list \<Rightarrow> (string \<rightharpoonup> bool)" where
  "config_flags w pp cs =
     map_of (rev (map (\<lambda>(filename, description, lvl).
                          (filename, path_exists w (pp @ [filename]))) cs))"

definition config_findings :: "world \<Rightarrow> path \<Rightarrow> PipelineIssue list" where
  "config_findings w pp =
     concat (map (config_issue w pp) config_file_specs)
     @ (if \<not> has_validation_workflow w (pp @ [''.github'', ''workflows'']) then
          [mk_issue MINOR ''ci'' ''No GitHub Actions validation workflow found'' True
             ''Create .github/workflows/validate.yml'']
        else [])"

definition detected_type :: "world \<Rightarrow> path \<Rightarrow> ProjectType" where
  "detected_type w pp =
     (if path_exists w (pp @ [''.claude-plugin'', ''marketplace.json'']) then MARKETPLACE
      else if path_exists w (pp @ [''.claude-plugin'', ''plugin.json'']) then
        (if is_file w (pp @ [''.git'']) then PLUGIN_IN_MARKETPLACE else PLUGIN)
      else UNKNOWN)"

definition detected_submodules :: "world \<Rightarrow> path \<Rightarrow> string list" where
  "detected_submodules w pp =
     (if detected_type w pp \<noteq> MARKETPLACE then []
      else if \<not> path_exists w (pp @ [''.gitmodules'']) then []
      else (case gitmodules_cfg w of
              None \<Rightarrow> []
            | Some sections \<Rightarrow> detect_submodules_loop w pp sections []))"

definition findings :: "world \<Rightarrow> path \<Rightarrow> string list \<Rightarrow> PipelineIssue list" where
  "findings w pp subs =
     (if detected_type w pp = UNKNOWN then
        [mk_issue CRITICAL ''project''
           ''Not a valid plugin or marketplace (missing .claude-plugin/plugin.json or marketplace.json)''
           False []]
      else
        (if \<not> path_exists w (pp @ [''.git'']) then
           [mk_issue CRITICAL ''git'' ''Not a git repository'' True ''Initialize git repository'']
         else [])
        @ hooks_findings w (get_hooks_dir w (init_setup pp False False))
        @ config_findings w pp
        @ (if detected_type w pp = MARKETPLACE
           then concat (map (submodule_issues w pp) subs) else []))"

definition found_hook_flags :: "world \<Rightarrow> path \<Rightarrow> (string \<rightharpoonup> bool)" where
  "found_hook_flags w pp =
     (if detected_type w pp = UNKNOWN then Map.empty
      else hook_flags w (get_hooks_dir w (init_setup pp False False)) required_hooks)"

definition found_config_flags :: "world \<Rightarrow> path \<Rightarrow> (string \<rightharpoonup> bool)" where
  "found_config_flags w pp =
     (if detected_type w pp = UNKNOWN then Map.empty
      else (config_flags w pp config_file_specs)
             (''github_workflow'' \<mapsto> has_validation_workflow w (pp @ [''.github'', ''workflows''])))"

section \<open>Example runs of the fixer\<close>

text \<open>The standalone plugin without hooks and configuration files, validated and then
  fixed twice in a row, not as a dry run.\<close>

definition plugin_validated :: PipelineSetup where
  "plugin_validated = validate plugin_tree (init_setup [''repo''] False False)"

definition first_fix :: "nat \<times> PipelineSetup \<times> world" where
  "first_fix = fix_all example_templates plugin_validated plugin_tree"

definition second_fix :: "nat \<times> PipelineSetup \<times> world" where
  "second_fix = fix_all example_templates (fst (snd first_fix)) (snd (snd first_fix))"


section \<open>Validity of a status\<close>

text \<open>
  Claim C6. For every PipelineStatus, \<open>is_valid\<close> holds exactly when no issue of the list
  has severity Critical or Major; issues of severity Minor or Info have no influence.
\<close>

theorem is_valid_iff_no_critical_or_major:
  "is_valid st \<longleftrightarrow> (\<forall>i \<in> set (issues st). level i \<noteq> CRITICAL \<and> level i \<noteq> MAJOR)"
  by (auto simp: is_valid_def list_ex_iff)

theorem is_valid_iff_no_critical_or_major_witness:
  "is_valid example_status"
  using is_valid_iff_no_critical_or_major [of example_status]
  by (simp add: example_status_def new_status_def mk_issue_def)

section \<open>Lemmas on the auto-fix loop\<close>

lemma ensure_linter_installed_json: "ensure_linter_installed t ''json''"
  by (simp add: ensure_linter_installed_def)

lemma run_linting_loop_filter:
  "run_linting_loop e ls acc =
   run_linting_loop e (filter (\<lambda>(lang, files). ensure_linter_installed (tools e lang) lang) ls) acc"
  by (induction e ls acc rule: run_linting_loop.induct)
     (simp_all split: option.splits result.splits)



text \<open>A json category with files ends \<^verbatim>\<open>run_linting\<close>, and with it \<^verbatim>\<open>main\<close>, by the
  \<^verbatim>\<open>NameError\<close> of \<^verbatim>\<open>lint_json\<close>, whatever the other categories do.\<close>

lemma run_linting_loop_raises:
  "(''json'', files) \<in> set ls \<Longrightarrow> files \<noteq> [] \<Longrightarrow> run_linting_loop e ls acc = NameError"
proof (induction ls arbitrary: acc)
  case Nil
  then show ?case by simp
next
  case (Cons x rest)
  obtain l fs where x: "x = (l, fs)" by (cases x)
  obtain all_passed files_changed where acc: "acc = (all_passed, files_changed)" by (cases acc)
  show ?case
  proof (cases "(''json'', files) = (l, fs)")
    case True
    then have l: "l = ''json''" and fs: "fs = files" by simp_all
    have "lint_language e ''json'' files = NameError"
      using Cons.prems(2) by (simp add: lint_language_def lint_json_def)
    then show ?thesis
      unfolding x acc l fs by (simp add: ensure_linter_installed_json)
  next
    case False
    with Cons.prems(1) x have "(''json'', files) \<in> set rest" by auto
    then have "\<And>acc'. run_linting_loop e rest acc' = NameError"
      using Cons.IH Cons.prems(2) by blast
    then show ?thesis
      unfolding x acc by (simp split: result.splits option.splits)
  qed
qed

lemma json_category_raises:
  assumes "(''json'', files) \<in> set (languages (lint r))" and "files \<noteq> []"
  shows "run_linting (lint r) = NameError"
    and "iteration_body r n = Return 1 UncaughtNameError []"
proof -
  from assms(1) have ne: "languages (lint r) \<noteq> []" by auto
  show rl: "run_linting (lint r) = NameError"
    using run_linting_loop_raises [OF assms] ne by (simp add: run_linting_def)
  show "iteration_body r n = Return 1 UncaughtNameError []"
    by (simp add: iteration_body_def rl)
qed






section \<open>The installed pre-push script\<close>

text \<open>
  After escape processing, the lines 385 and 797 of the source are single lines with a
  two-character escape inside the literal. The lines 1081, 1084, 1191 and 1198 each become
  two physical lines, the first of which ends inside the literal that \<^verbatim>\<open>split(\<close> opens.
  The installed script therefore does not compile, and every run of the hook ends with a
  \<^verbatim>\<open>SyntaxError\<close> and exit status 1, whatever the repository holds.
\<close>

lemma escaped_lines_stay_whole:
  "map (\<lambda>(n, src). (n, length (installed_lines src), breaks_literal src)) (take 2 split_call_lines)
     = [(385, 1, False), (797, 1, False)]"
  by code_simp

lemma unescaped_lines_break:
  "map (\<lambda>(n, src). (n, length (installed_lines src), breaks_literal src)) (drop 2 split_call_lines)
     = [(1081, 2, True), (1084, 2, True), (1191, 2, True), (1198, 2, True)]"
  by code_simp

lemma line_1081_installed:
  "installed_lines (snd (split_call_lines ! 2)) =
     [indent 12 @ ''lines = result.stdout.strip().split('' @ [dq], [dq] @ '')[:5]'']"
  by code_simp

lemma script_does_not_compile: "\<not> script_compiles"
  by code_simp

lemma run_pre_push_hook_SyntaxError: "run_pre_push_hook env = SyntaxError"
  by (simp add: run_pre_push_hook_def script_does_not_compile)

section \<open>The auto-fix loop at its bound\<close>






section \<open>Changed by any category\<close>




section \<open>Step order of the adapters\<close>




section \<open>A category whose tool is missing\<close>

text \<open>
  What the functions do, as written, when the tool of a category is missing. When
  \<open>ensure_linter_installed\<close> is false, \<^verbatim>\<open>run_linting\<close> goes on to the next category
  (\<^verbatim>\<open>continue\<close>): the adapter is not run and the category adds neither a failure nor a
  change, so the result is that of the remaining categories. When the tool passes
  \<open>ensure_linter_installed\<close> but cannot be started, the adapters of Python, Go and Rust
  return a failure without a change, and the loop body ends as blocked unless another
  category changed a file.
\<close>

lemma run_linting_all_skipped:
  assumes "\<forall>(lang, files) \<in> set ls. \<not> ensure_linter_installed (tools e lang) lang"
  shows "run_linting_loop e ls acc = Returned acc"
proof -
  have "filter (\<lambda>(lang, files). ensure_linter_installed (tools e lang) lang) ls = []"
    using assms by (auto simp: filter_empty_conv)
  then show ?thesis
    using run_linting_loop_filter [of e ls acc] by simp
qed

lemma run_linting_skips_missing_tool:
  "run_linting e =
     run_linting_loop e
       (filter (\<lambda>(lang, files). ensure_linter_installed (tools e lang) lang) (languages e))
       (True, False)"
  using run_linting_loop_filter [of e "languages e" "(True, False)"]
  by (cases "languages e = []") (simp_all add: run_linting_def)

lemma ruff_missing_not_installed:
  "\<not> which t ''ruff'' \<Longrightarrow> \<not> install_python_tool t ''ruff'' \<Longrightarrow>
   \<not> ensure_linter_installed t ''python''"
  by (simp add: ensure_linter_installed_def)

lemma no_tool_anywhere_passes:
  assumes "\<forall>(lang, files) \<in> set (languages (lint r)).
             \<not> ensure_linter_installed (tools (lint r) lang) lang"
  shows "run_linting (lint r) = Returned (True, False)"
    and "iteration_body r n =
           (if run_validation_cycle (validation r) = [] then Return 0 Success []
            else Return 1 (BlockedStructural (run_validation_cycle (validation r))) [])"
proof -
  show rl: "run_linting (lint r) = Returned (True, False)"
    using run_linting_all_skipped [OF assms] by (simp add: run_linting_def)
  show "iteration_body r n =
           (if run_validation_cycle (validation r) = [] then Return 0 Success []
            else Return 1 (BlockedStructural (run_validation_cycle (validation r))) [])"
    by (simp add: iteration_body_def rl Let_def)
qed

lemma tool_not_startable:
  "ruff_fix p = FileNotFoundError \<Longrightarrow> lint_python p = (False, False)"
  "gofmt g = FileNotFoundError \<Longrightarrow> lint_go g = (False, False)"
  "cargo_toml_exists c \<Longrightarrow> cargo_fmt c = FileNotFoundError \<Longrightarrow> lint_rust c = (False, False)"
  by (simp_all add: lint_python_def lint_python_run_def lint_go_def lint_rust_def
      lint_rust_run_def)

lemma ruff_not_startable_blocks:
  "ensure_linter_installed (tools (lint ruff_not_startable_round) ''python'') ''python''
   \<and> run_linting (lint ruff_not_startable_round) = Returned (False, False)
   \<and> iteration_body ruff_not_startable_round 1 = Return 1 BlockedUnfixableLint []"
  by code_simp

lemma no_ruff_main_as_written:
  "run_linting (lint no_ruff_round) = Returned (True, False)
   \<and> pre_push_main no_ruff_env =
       \<lparr>exit_code = 0, outcome = Success, commits = [], rounds = 1\<rparr>"
  by code_simp

lemma no_ruff_plugin_main_as_written:
  "run_linting (lint no_ruff_plugin_round) = NameError
   \<and> pre_push_main no_ruff_plugin_env =
       \<lparr>exit_code = 1, outcome = UncaughtNameError, commits = [], rounds = 1\<rparr>"
  by code_simp


section \<open>Lemmas on validation\<close>

lemma hook_flags_Cons:
  "m ++ hook_flags w d ((n, desc) # hs) = m(n \<mapsto> path_exists w (d @ [n])) ++ hook_flags w d hs"
  by (rule ext) (simp add: hook_flags_def map_add_def split: option.splits)

lemma validate_hooks_loop_eq:
  "validate_hooks_loop w d hs s =
     s\<lparr>status := (status s)\<lparr>issues := issues (status s) @ concat (map (hook_issue w d) hs),
                            hooks_installed := hooks_installed (status s) ++ hook_flags w d hs\<rparr>\<rparr>"
proof (induction hs arbitrary: s)
  case Nil
  then show ?case by (simp add: hook_flags_def)
next
  case (Cons h hs)
  obtain n desc where h: "h = (n, desc)" by (cases h)
  show ?case
    unfolding h hook_flags_Cons
    by (simp add: Cons.IH Let_def hook_issue_def add_issue_def)
qed

lemma validate_hooks_eq:
  "validate_hooks w s =
     s\<lparr>status := (status s)\<lparr>issues := issues (status s) @ hooks_findings w (get_hooks_dir w s),
                            hooks_installed := hooks_installed (status s)
                               ++ hook_flags w (get_hooks_dir w s) required_hooks\<rparr>\<rparr>"
  by (simp add: validate_hooks_def validate_hooks_loop_eq hooks_findings_def Let_def add_issue_def
      get_hooks_dir_def)

lemma config_flags_Cons:
  "m ++ config_flags w pp ((f, desc, l) # cs) = m(f \<mapsto> path_exists w (pp @ [f])) ++ config_flags w pp cs"
  by (rule ext) (simp add: config_flags_def map_add_def split: option.splits)

lemma validate_config_loop_eq:
  "validate_config_loop w cs s =
     s\<lparr>status := (status s)\<lparr>issues := issues (status s) @ concat (map (config_issue w (setup_path s)) cs),
                            config_files := config_files (status s) ++ config_flags w (setup_path s) cs\<rparr>\<rparr>"
proof (induction cs arbitrary: s)
  case Nil
  then show ?case by (simp add: config_flags_def)
next
  case (Cons c cs)
  obtain f desc l where c: "c = (f, desc, l)" by (cases c)
  show ?case
    unfolding c config_flags_Cons
    by (simp add: Cons.IH Let_def config_issue_def add_issue_def)
qed

lemma validate_config_files_eq:
  "validate_config_files w s =
     s\<lparr>status := (status s)\<lparr>issues := issues (status s) @ config_findings w (setup_path s),
                            config_files := config_files (status s)
                               ++ (config_flags w (setup_path s) config_file_specs)
                                    (''github_workflow'' \<mapsto>
                                       has_validation_workflow w (setup_path s @ [''.github'', ''workflows'']))\<rparr>\<rparr>"
  by (simp add: validate_config_files_def validate_config_loop_eq config_findings_def Let_def
      add_issue_def)

lemma detect_submodules_loop_append:
  "detect_submodules_loop w pp secs subs = subs @ detect_submodules_loop w pp secs []"
proof (induction secs arbitrary: subs)
  case Nil
  then show ?case by simp
next
  case (Cons x secs)
  obtain sec v where x: "x = (sec, v)" by (cases x)
  have ih: "detect_submodules_loop w pp secs (subs @ [q]) =
              subs @ [q] @ detect_submodules_loop w pp secs []" for q
    using Cons.IH [of "subs @ [q]"] by simp
  have ih1: "detect_submodules_loop w pp secs [q] = [q] @ detect_submodules_loop w pp secs []" for q
    using Cons.IH [of "[q]"] by simp
  have ih0: "detect_submodules_loop w pp secs subs = subs @ detect_submodules_loop w pp secs []"
    by (rule Cons.IH)
  show ?case
  proof (cases "startswith sec ''submodule ''")
    case False
    then show ?thesis unfolding x using ih0 by simp
  next
    case True
    show ?thesis
    proof (cases v)
      case (Found p)
      then show ?thesis unfolding x using True ih0 ih [of p] ih1 [of p] by (simp add: Let_def)
    next
      case Absent
      then show ?thesis
        unfolding x using True ih0
          ih [of "strip_char (CHR 0x22) (remove_all ''submodule '' sec)"]
          ih1 [of "strip_char (CHR 0x22) (remove_all ''submodule '' sec)"]
        by (simp add: Let_def)
    next
      case Raises
      then show ?thesis unfolding x using True by (simp add: Let_def)
    qed
  qed
qed

lemma detect_project_type_eq:
  "detect_project_type w s =
     s\<lparr>status := (status s)\<lparr>project_type := detected_type w (setup_path s),
                            submodules := submodules (status s) @ detected_submodules w (setup_path s)\<rparr>\<rparr>"
  using detect_submodules_loop_append [of w "setup_path s" _ "submodules (status s)"]
  by (simp add: detect_project_type_def detected_type_def detected_submodules_def
      detect_submodules_def Let_def split: option.splits)


lemma get_hooks_dir_path:
  "get_hooks_dir w s = get_hooks_dir w (init_setup (setup_path s) False False)"
  by (simp add: get_hooks_dir_def init_setup_def Let_def split: option.splits)

lemma map_add_self: "m ++ m = m"
  by (rule ext) (simp add: map_add_def split: option.splits)

lemma validate_eq:
  "validate w s =
     s\<lparr>status := (status s)
        \<lparr>project_type := detected_type w (setup_path s),
         submodules := submodules (status s) @ detected_submodules w (setup_path s),
         issues := issues (status s)
            @ findings w (setup_path s)
                (submodules (status s) @ detected_submodules w (setup_path s)),
         hooks_installed := hooks_installed (status s) ++ found_hook_flags w (setup_path s),
         config_files := config_files (status s) ++ found_config_flags w (setup_path s)\<rparr>\<rparr>"
proof (cases "detected_type w (setup_path s) = UNKNOWN")
  case True
  then show ?thesis
    by (simp add: validate_def detect_project_type_eq findings_def found_hook_flags_def
        found_config_flags_def Let_def add_issue_def)
next
  case False
  have g: "get_hooks_dir w (s\<lparr>status := st\<rparr>) = get_hooks_dir w (init_setup (setup_path s) False False)" for st
    by (simp add: get_hooks_dir_def init_setup_def Let_def split: option.splits)
  from False show ?thesis
    by (simp add: validate_def detect_project_type_eq validate_hooks_eq validate_config_files_eq
        validate_submodule_hooks_def findings_def found_hook_flags_def found_config_flags_def
        Let_def add_issue_def g)
qed

lemma findings_doubled:
  "length (findings w p subs) \<le> length (findings w p (subs @ subs))"
  by (simp add: findings_def)

section \<open>Lemmas on the file system\<close>

text \<open>What a look-up finds after each operation, and what the example trees hold. The
  example runs are evaluated with these lemmas over a tree that is not unfolded.\<close>

lemma lookup_write_text:
  "lookup (write_text w p s) q =
     (if resolve q = resolve p
      then Some \<lparr>kind = RegularFile, content = s, st_size = length s,
                 x_ok = access_x w p, readable = True\<rparr>
      else lookup w q)"
  by (simp add: lookup_def write_text_def update_conv')

lemma lookup_chmod_x:
  "lookup (chmod_x w p) q =
     (if resolve q = resolve p then map_option (\<lambda>n. n\<lparr>x_ok := True\<rparr>) (lookup w p)
      else lookup w q)"
  by (cases "lookup w p") (auto simp: lookup_def chmod_x_def update_conv')

lemma lookup_unlink:
  "lookup (unlink w p) q = (if resolve q = resolve p then None else lookup w q)"
  by (simp add: lookup_def unlink_def delete_conv')

lemma lookup_append_text:
  "lookup (append_text w p s) q =
     (if resolve q = resolve p
      then (case lookup w p of
              None \<Rightarrow> Some \<lparr>kind = RegularFile, content = s, st_size = length s,
                              x_ok = False, readable = True\<rparr>
            | Some n \<Rightarrow> Some (n\<lparr>content := content n @ s, st_size := st_size n + length s\<rparr>))
      else lookup w q)"
  by (cases "lookup w p")
     (auto simp: lookup_def append_text_def write_text_def access_x_def update_conv')

lemma map_of_mkdir_fold:
  "map_of (nodes (fold (\<lambda>q w'. if q = [] \<or> map_of (nodes w') q \<noteq> None then w'
                   else w'\<lparr>nodes := AList.update q new_directory (nodes w')\<rparr>) qs w)) r =
     (if r \<in> set qs \<and> r \<noteq> [] \<and> map_of (nodes w) r = None then Some new_directory
      else map_of (nodes w) r)"
  by (induction qs arbitrary: w) (auto simp: update_conv')

lemma lookup_mkdir_parents:
  "lookup (mkdir_parents w p) q =
     (if resolve q \<in> set (prefixes (resolve p)) \<and> resolve q \<noteq> [] \<and> lookup w q = None
      then Some new_directory else lookup w q)"
  by (simp only: lookup_def mkdir_parents_def map_of_mkdir_fold)

lemma resolve_append_plain:
  "''..'' \<notin> set p \<Longrightarrow>
   fold (\<lambda>part acc. if part = ''..'' then butlast acc else acc @ [part]) p acc = acc @ p"
  by (induction p arbitrary: acc) auto

lemma resolve_plain: "''..'' \<notin> set p \<Longrightarrow> resolve p = p"
  by (simp add: resolve_def resolve_append_plain)

lemma faults_mkdir_fold:
  "install_fault (fold (\<lambda>q w'. if q = [] \<or> map_of (nodes w') q \<noteq> None then w'
                   else w'\<lparr>nodes := AList.update q new_directory (nodes w')\<rparr>) qs w) = install_fault w
   \<and> append_fails (fold (\<lambda>q w'. if q = [] \<or> map_of (nodes w') q \<noteq> None then w'
                   else w'\<lparr>nodes := AList.update q new_directory (nodes w')\<rparr>) qs w) = append_fails w
   \<and> unlink_fails (fold (\<lambda>q w'. if q = [] \<or> map_of (nodes w') q \<noteq> None then w'
                   else w'\<lparr>nodes := AList.update q new_directory (nodes w')\<rparr>) qs w) = unlink_fails w
   \<and> gitmodules_cfg (fold (\<lambda>q w'. if q = [] \<or> map_of (nodes w') q \<noteq> None then w'
                   else w'\<lparr>nodes := AList.update q new_directory (nodes w')\<rparr>) qs w) = gitmodules_cfg w"
  by (induction qs arbitrary: w) auto

lemma faults_kept:
  "install_fault (write_text w p s) = install_fault w"
  "append_fails (write_text w p s) = append_fails w"
  "unlink_fails (write_text w p s) = unlink_fails w"
  "gitmodules_cfg (write_text w p s) = gitmodules_cfg w"
  "install_fault (chmod_x w p) = install_fault w"
  "append_fails (chmod_x w p) = append_fails w"
  "unlink_fails (chmod_x w p) = unlink_fails w"
  "gitmodules_cfg (chmod_x w p) = gitmodules_cfg w"
  "install_fault (unlink w p) = install_fault w"
  "append_fails (unlink w p) = append_fails w"
  "unlink_fails (unlink w p) = unlink_fails w"
  "gitmodules_cfg (unlink w p) = gitmodules_cfg w"
  "install_fault (append_text w p s) = install_fault w"
  "append_fails (append_text w p s) = append_fails w"
  "unlink_fails (append_text w p s) = unlink_fails w"
  "gitmodules_cfg (append_text w p s) = gitmodules_cfg w"
  "install_fault (mkdir_parents w p) = install_fault w"
  "append_fails (mkdir_parents w p) = append_fails w"
  "unlink_fails (mkdir_parents w p) = unlink_fails w"
  "gitmodules_cfg (mkdir_parents w p) = gitmodules_cfg w"
  by (simp_all only: mkdir_parents_def faults_mkdir_fold)
     (simp_all add: write_text_def chmod_x_def unlink_def append_text_def split: option.splits)

lemmas store_simps =
  lookup_write_text lookup_chmod_x lookup_unlink lookup_append_text lookup_mkdir_parents
  faults_kept

lemmas access_defs = path_exists_def is_file_def access_x_def size_of_def read_text_def

lemma lookup_plugin_tree:
  "lookup plugin_tree q =
     (if resolve q = [''repo''] then Some new_directory
      else if resolve q = [''repo'', ''.claude-plugin''] then Some new_directory
      else if resolve q = [''repo'', ''.claude-plugin'', ''plugin.json'']
        then Some (file_node ''{}'' False)
      else if resolve q = [''repo'', ''.git''] then Some new_directory
      else None)"
  by (simp add: lookup_def plugin_tree_def tree_def)

lemma plugin_tree_faults:
  "install_fault plugin_tree = (\<lambda>p. NoFault)"
  "append_fails plugin_tree = (\<lambda>p. False)"
  "unlink_fails plugin_tree = (\<lambda>p. False)"
  "gitmodules_cfg plugin_tree = None"
  by (simp_all add: plugin_tree_def tree_def)


lemma gitignore_additions_facts:
  "\<not> list_all (contains GITIGNORE_ADDITIONS) gitignore_markers"
  "length GITIGNORE_ADDITIONS = 249"
  "\<not> contains GITIGNORE_ADDITIONS ''.mypy_cache''"
  by code_simp+

lemma plugin_validated_facts:
  "project_type (status plugin_validated) = PLUGIN"
  "submodules (status plugin_validated) = []"
  "setup_path plugin_validated = [''repo'']"
  "dry_run plugin_validated = False"
  by (simp_all add: plugin_validated_def validate_eq init_setup_def new_status_def
      detected_type_def detected_submodules_def access_defs lookup_plugin_tree resolve_plain
      file_node_def new_directory_def)

lemma template_lengths:
  "length (PRE_COMMIT_HOOK example_templates) = 120"
  "length (PRE_PUSH_HOOK example_templates) = 120"
  "length (POST_REWRITE_HOOK example_templates) = 120"
  "length (POST_MERGE_HOOK example_templates) = 120"
  by (simp_all add: example_templates_def)

lemmas fix_defs =
  fix_all_def fix_hooks_def hook_templates_def hook_is_valid_def fix_config_files_def
  fix_submodule_hooks_def get_hooks_dir_def template_lengths

lemma first_fix_count: "fst first_fix = 7"
  by (simp add: first_fix_def fix_defs plugin_validated_facts access_defs store_simps
      lookup_plugin_tree plugin_tree_faults resolve_plain file_node_def new_directory_def
      Let_def cong: let_weak_cong)


lemma first_fix_setup: "fst (snd first_fix) = plugin_validated"
  by (simp add: first_fix_def fix_defs plugin_validated_facts access_defs store_simps
      lookup_plugin_tree plugin_tree_faults resolve_plain file_node_def new_directory_def
      Let_def cong: let_weak_cong)

lemma first_fix_faults:
  "install_fault (snd (snd first_fix)) = (\<lambda>p. NoFault)"
  "append_fails (snd (snd first_fix)) = (\<lambda>p. False)"
  by (simp_all add: first_fix_def fix_defs plugin_validated_facts access_defs store_simps
      lookup_plugin_tree plugin_tree_faults resolve_plain file_node_def new_directory_def
      Let_def cong: let_weak_cong)

lemma lookup_first_fix:
  "lookup (snd (snd first_fix)) q =
     (if resolve q = [''repo''] then Some new_directory
      else if resolve q = [''repo'', ''.claude-plugin''] then Some new_directory
      else if resolve q = [''repo'', ''.claude-plugin'', ''plugin.json'']
        then Some (file_node ''{}'' False)
      else if resolve q = [''repo'', ''.git''] then Some new_directory
      else if resolve q = [''repo'', ''.git'', ''hooks''] then Some new_directory
      else if resolve q = [''repo'', ''.git'', ''hooks'', ''pre-commit'']
        then Some (file_node (PRE_COMMIT_HOOK example_templates) True)
      else if resolve q = [''repo'', ''.git'', ''hooks'', ''pre-push'']
        then Some (file_node (PRE_PUSH_HOOK example_templates) True)
      else if resolve q = [''repo'', ''.git'', ''hooks'', ''post-rewrite'']
        then Some (file_node (POST_REWRITE_HOOK example_templates) True)
      else if resolve q = [''repo'', ''.git'', ''hooks'', ''post-merge'']
        then Some (file_node (POST_MERGE_HOOK example_templates) True)
      else if resolve q = [''repo'', ''cliff.toml'']
        then Some (file_node (CLIFF_TOML example_templates) False)
      else if resolve q = [''repo'', ''.gitignore'']
        then Some (file_node GITIGNORE_ADDITIONS False)
      else if resolve q = [''repo'', ''.github''] then Some new_directory
      else if resolve q = [''repo'', ''.github'', ''workflows''] then Some new_directory
      else if resolve q = [''repo'', ''.github'', ''workflows'', ''validate.yml'']
        then Some (file_node (GITHUB_WORKFLOW example_templates) False)
      else None)"
  by (simp add: first_fix_def fix_defs plugin_validated_facts access_defs store_simps
      lookup_plugin_tree plugin_tree_faults resolve_plain file_node_def new_directory_def
      Let_def cong: let_weak_cong)

lemma second_fix_count: "fst second_fix = 1"
  unfolding second_fix_def first_fix_setup
  by (simp add: fix_defs plugin_validated_facts access_defs store_simps lookup_first_fix
      first_fix_faults resolve_plain file_node_def new_directory_def
      gitignore_additions_facts Let_def cong: let_weak_cong)

lemma second_fix_gitignore:
  "read_text (snd (snd second_fix)) [''repo'', ''.gitignore'']
     = Some (GITIGNORE_ADDITIONS @ newline @ GITIGNORE_ADDITIONS)"
  unfolding second_fix_def first_fix_setup
  by (simp add: fix_defs plugin_validated_facts access_defs store_simps lookup_first_fix
      first_fix_faults resolve_plain file_node_def new_directory_def
      gitignore_additions_facts Let_def cong: let_weak_cong)

lemma first_fix_gitignore:
  "read_text (snd (snd first_fix)) [''repo'', ''.gitignore''] = Some GITIGNORE_ADDITIONS"
  by (simp add: access_defs lookup_first_fix resolve_plain file_node_def)

lemma lookup_stub_hook_tree:
  "lookup stub_hook_tree q =
     (if resolve q = [''repo''] then Some new_directory
      else if resolve q = [''repo'', ''.claude-plugin''] then Some new_directory
      else if resolve q = [''repo'', ''.claude-plugin'', ''plugin.json'']
        then Some (file_node ''{}'' False)
      else if resolve q = [''repo'', ''.git''] then Some new_directory
      else if resolve q = [''repo'', ''.git'', ''hooks''] then Some new_directory
      else if resolve q = [''repo'', ''.git'', ''hooks'', ''pre-commit'']
        then Some (file_node (''#!/bin/sh'' @ newline) True)
      else if resolve q = [''repo'', ''.git'', ''hooks'', ''pre-push'']
        then Some (file_node (replicate 120 (CHR ''p'')) True)
      else if resolve q = [''repo'', ''.git'', ''hooks'', ''post-rewrite'']
        then Some (file_node (replicate 120 (CHR ''r'')) True)
      else if resolve q = [''repo'', ''.git'', ''hooks'', ''post-merge'']
        then Some (file_node (replicate 120 (CHR ''m'')) True)
      else if resolve q = [''repo'', ''cliff.toml''] then Some (file_node ''# git-cliff'' False)
      else if resolve q = [''repo'', ''.gitignore'']
        then Some (file_node ''__pycache__/ .mypy_cache/ docs_dev/'' False)
      else if resolve q = [''repo'', ''.github''] then Some new_directory
      else if resolve q = [''repo'', ''.github'', ''workflows''] then Some new_directory
      else if resolve q = [''repo'', ''.github'', ''workflows'', ''validate.yml'']
        then Some (file_node ''name: Plugin Validation'' False)
      else None)"
  by (simp add: lookup_def stub_hook_tree_def tree_def)

lemma stub_hook_tree_workflow:
  "has_validation_workflow stub_hook_tree [''repo'', ''.github'', ''workflows'']"
  by code_simp

lemma stub_hook_tree_validated:
  "issues (status (validate stub_hook_tree (init_setup [''repo''] False False))) = []"
  "hooks_installed (status (validate stub_hook_tree (init_setup [''repo''] False False)))
     ''pre-commit'' = Some True"
  "project_type (status (validate stub_hook_tree (init_setup [''repo''] False False))) = PLUGIN"
  "submodules (status (validate stub_hook_tree (init_setup [''repo''] False False))) = []"
  by (simp_all add: validate_eq init_setup_def new_status_def findings_def hooks_findings_def
      hook_issue_def config_findings_def config_issue_def required_hooks_def
      config_file_specs_def found_hook_flags_def hook_flags_def get_hooks_dir_def
      detected_type_def detected_submodules_def stub_hook_tree_workflow
      access_defs lookup_stub_hook_tree resolve_plain file_node_def new_directory_def Let_def)

section \<open>Calling validate twice\<close>

text \<open>
  Claim C9, as amended. \<open>validate\<close> does not construct its status afresh: it appends to
  the status that \<^verbatim>\<open>__init__\<close> made. Calling it twice on the same object over an unchanged
  tree gives the same project type and the same hooks and config maps as calling it once,
  but the issue list of the first call followed by the findings of the second (at least
  twice as many issues; for a project without submodules exactly the same issues again),
  and the submodule list twice. The second call leaves the object as the first call left
  it exactly when the first call found no issue and no submodule. When the caller
  replaces the status by a fresh one before the second call, as \<^verbatim>\<open>main\<close> does before it
  re-validates, the second call gives the result of a single call.
\<close>

theorem validate_accumulates:
  "(let s1 = validate w (init_setup p dry verb); s2 = validate w s1 in
      project_type (status s2) = project_type (status s1)
      \<and> hooks_installed (status s2) = hooks_installed (status s1)
      \<and> config_files (status s2) = config_files (status s1)
      \<and> submodules (status s2) = submodules (status s1) @ submodules (status s1)
      \<and> prefix (issues (status s1)) (issues (status s2))
      \<and> 2 * length (issues (status s1)) \<le> length (issues (status s2))
      \<and> (submodules (status s1) = [] \<longrightarrow>
            issues (status s2) = issues (status s1) @ issues (status s1))
      \<and> (s2 = s1 \<longleftrightarrow> issues (status s1) = [] \<and> submodules (status s1) = [])
      \<and> validate w (s1\<lparr>status := new_status p\<rparr>) = s1)"
proof -
  define D where "D = detected_submodules w p"
  define s1 where "s1 = validate w (init_setup p dry verb)"
  define s2 where "s2 = validate w s1"
  have p1: "setup_path s1 = p"
    unfolding s1_def by (subst validate_eq) (simp add: init_setup_def)
  have st1: "status s1 =
      \<lparr>project_type = detected_type w p, project_path = p, issues = findings w p D,
       hooks_installed = found_hook_flags w p, config_files = found_config_flags w p,
       submodules = D\<rparr>"
    unfolding s1_def D_def by (subst validate_eq) (simp add: init_setup_def new_status_def)
  have st2: "status s2 =
      \<lparr>project_type = detected_type w p, project_path = p,
       issues = findings w p D @ findings w p (D @ D),
       hooks_installed = found_hook_flags w p, config_files = found_config_flags w p,
       submodules = D @ D\<rparr>"
    unfolding s2_def by (subst validate_eq) (simp add: st1 p1 D_def map_add_self)
  have upd: "s2 = s1\<lparr>status := status s2\<rparr>"
  proof -
    have "\<exists>X. validate w s1 = s1\<lparr>status := X\<rparr>"
      by (subst validate_eq) (rule exI, rule refl)
    then obtain X where "validate w s1 = s1\<lparr>status := X\<rparr>" ..
    then show ?thesis unfolding s2_def by simp
  qed
  have same: "s2 = s1 \<longleftrightarrow> issues (status s1) = [] \<and> submodules (status s1) = []"
  proof
    assume "s2 = s1"
    then have a: "submodules (status s2) = submodules (status s1)"
      and b: "issues (status s2) = issues (status s1)" by simp_all
    from a have d: "D = []" by (simp add: st1 st2)
    from b have "findings w p (D @ D) = []" by (simp add: st1 st2)
    then have "findings w p [] = []" unfolding d by simp
    with d show "issues (status s1) = [] \<and> submodules (status s1) = []"
      by (simp add: st1)
  next
    assume h: "issues (status s1) = [] \<and> submodules (status s1) = []"
    from h have "submodules (status s1) = []" by blast
    then have d: "D = []" by (simp add: st1)
    from h have "issues (status s1) = []" by blast
    then have "findings w p [] = []" by (simp add: st1 d)
    then have "status s2 = status s1" by (simp add: st1 st2 d)
    with upd show "s2 = s1" by simp
  qed
  have reset: "validate w (s1\<lparr>status := new_status p\<rparr>) = s1"
  proof -
    have "s1\<lparr>status := new_status p\<rparr> = init_setup p dry verb"
      unfolding s1_def by (subst validate_eq) (simp add: init_setup_def)
    then show ?thesis by (simp add: s1_def)
  qed
  have "project_type (status s2) = project_type (status s1)
      \<and> hooks_installed (status s2) = hooks_installed (status s1)
      \<and> config_files (status s2) = config_files (status s1)
      \<and> submodules (status s2) = submodules (status s1) @ submodules (status s1)
      \<and> prefix (issues (status s1)) (issues (status s2))
      \<and> 2 * length (issues (status s1)) \<le> length (issues (status s2))
      \<and> (submodules (status s1) = [] \<longrightarrow>
            issues (status s2) = issues (status s1) @ issues (status s1))"
    using findings_doubled [of w p D] by (auto simp: st1 st2)
  with same reset show ?thesis
    unfolding s1_def s2_def Let_def by blast
qed

lemma plugin_tree_issues:
  "length (issues (status (validate plugin_tree (init_setup [''repo''] False False)))) = 7"
  by code_simp

theorem validate_accumulates_witness:
  "submodules (status (validate plugin_tree (init_setup [''repo''] False False))) = []
   \<and> length (issues (status (validate plugin_tree
         (validate plugin_tree (init_setup [''repo''] False False))))) = 14
   \<and> issues (status (validate stub_hook_tree (init_setup [''repo''] False False))) = []
   \<and> validate stub_hook_tree (validate stub_hook_tree (init_setup [''repo''] False False))
       = validate stub_hook_tree (init_setup [''repo''] False False)"
proof -
  have e: "submodules (status (validate plugin_tree (init_setup [''repo''] False False))) = []"
    by code_simp
  from validate_accumulates [of plugin_tree "[''repo'']" False False]
  have "issues (status (validate plugin_tree
           (validate plugin_tree (init_setup [''repo''] False False)))) =
        issues (status (validate plugin_tree (init_setup [''repo''] False False)))
        @ issues (status (validate plugin_tree (init_setup [''repo''] False False)))"
    using e unfolding Let_def by blast
  then have l: "length (issues (status (validate plugin_tree
         (validate plugin_tree (init_setup [''repo''] False False))))) = 14"
    using plugin_tree_issues by simp
  from validate_accumulates [of stub_hook_tree "[''repo'']" False False]
  have "validate stub_hook_tree (validate stub_hook_tree (init_setup [''repo''] False False))
          = validate stub_hook_tree (init_setup [''repo''] False False)"
    using stub_hook_tree_validated(1,4) unfolding Let_def by blast
  with e l stub_hook_tree_validated(1) show ?thesis by simp
qed

text \<open>
  Claim C9 as stated fails: on a directory that is no plugin, the second call on the same
  object reports the Critical issue twice.
\<close>

theorem validate_twice_duplicates_counterexample:
  "length (issues (status (validate bare_tree (init_setup [''repo''] False False)))) = 1
   \<and> length (issues (status (validate bare_tree
        (validate bare_tree (init_setup [''repo''] False False))))) = 2
   \<and> issues (status (validate bare_tree (validate bare_tree (init_setup [''repo''] False False))))
       \<noteq> issues (status (validate bare_tree (init_setup [''repo''] False False)))"
  by code_simp

section \<open>Fixing twice\<close>

text \<open>
  Claim C3, at the standalone plugin without hooks and configuration files. The first
  \<^verbatim>\<open>fix()\<close> applies seven changes and creates \<^verbatim>\<open>.gitignore\<close> with the text
  \<^verbatim>\<open>GITIGNORE_ADDITIONS\<close>. That text does not hold the marker \<^verbatim>\<open>.mypy_cache\<close> for which
  \<^verbatim>\<open>_fix_config_files\<close> looks, so the second \<^verbatim>\<open>fix()\<close>, on the unchanged tree, appends the
  text once more and returns 1, where the claim says 0.
\<close>

theorem second_fix_appends_again:
  "project_type (status plugin_validated) = PLUGIN
   \<and> fst first_fix = 7
   \<and> read_text (snd (snd first_fix)) [''repo'', ''.gitignore''] = Some GITIGNORE_ADDITIONS
   \<and> \<not> contains GITIGNORE_ADDITIONS ''.mypy_cache''
   \<and> fst second_fix = 1
   \<and> read_text (snd (snd second_fix)) [''repo'', ''.gitignore'']
       = Some (GITIGNORE_ADDITIONS @ newline @ GITIGNORE_ADDITIONS)"
  using plugin_validated_facts(1) first_fix_count first_fix_gitignore
    gitignore_additions_facts(3) second_fix_count second_fix_gitignore
  by simp

section \<open>A stub hook under validation\<close>

lemma stub_gitignore_markers:
  "list_all (contains ''__pycache__/ .mypy_cache/ docs_dev/'') gitignore_markers"
  by code_simp

lemma stub_hook_tree_faults:
  "install_fault stub_hook_tree = (\<lambda>p. NoFault)"
  "append_fails stub_hook_tree = (\<lambda>p. False)"
  "unlink_fails stub_hook_tree = (\<lambda>p. False)"
  "gitmodules_cfg stub_hook_tree = None"
  by (simp_all add: stub_hook_tree_def tree_def)

lemma stub_hook_tree_setup:
  "setup_path (validate stub_hook_tree (init_setup [''repo''] False False)) = [''repo'']"
  "dry_run (validate stub_hook_tree (init_setup [''repo''] False False)) = False"
  by (simp_all add: validate_eq init_setup_def)

lemma stub_hook_tree_fix:
  "fst (fix_all example_templates
          (validate stub_hook_tree (init_setup [''repo''] False False)) stub_hook_tree) = 1"
  by (simp add: fix_defs stub_hook_tree_validated stub_hook_tree_setup access_defs store_simps
      lookup_stub_hook_tree stub_hook_tree_faults resolve_plain file_node_def new_directory_def
      stub_gitignore_markers newline_def Let_def cong: let_weak_cong)

text \<open>
  Claim C5, at a fully configured plugin whose \<^verbatim>\<open>pre-commit\<close> hook is an executable file of
  10 bytes. \<^verbatim>\<open>_hook_is_valid\<close>, which the fixer asks, rejects the file for its size, and
  \<^verbatim>\<open>fix()\<close> would install the hook anew. \<^verbatim>\<open>validate()\<close> does not ask it: it records the hook
  as installed and reports no issue, where the claim says that it reports the hook as
  missing.
\<close>

theorem stub_hook_passes_validation:
  "access_x stub_hook_tree [''repo'', ''.git'', ''hooks'', ''pre-commit'']
   \<and> size_of stub_hook_tree [''repo'', ''.git'', ''hooks'', ''pre-commit''] = 10
   \<and> \<not> hook_is_valid stub_hook_tree [''repo'', ''.git'', ''hooks'', ''pre-commit'']
   \<and> hooks_installed (status (validate stub_hook_tree (init_setup [''repo''] False False)))
        ''pre-commit'' = Some True
   \<and> issues (status (validate stub_hook_tree (init_setup [''repo''] False False))) = []
   \<and> is_valid (status (validate stub_hook_tree (init_setup [''repo''] False False)))
   \<and> fst (fix_all example_templates
             (validate stub_hook_tree (init_setup [''repo''] False False)) stub_hook_tree) = 1"
  using stub_hook_tree_validated(1,2) stub_hook_tree_fix
  by (simp add: is_valid_def hook_is_valid_def access_defs lookup_stub_hook_tree resolve_plain
      file_node_def newline_def)

section \<open>The exit code of the command line\<close>




section \<open>The hooks directory\<close>

text \<open>
  When \<^verbatim>\<open>_get_hooks_dir\<close> returns: for a \<^verbatim>\<open>.git\<close> that is no regular file, a \<^verbatim>\<open>.git\<close> file
  that cannot be read or decoded, and a \<^verbatim>\<open>.git\<close> file whose stripped text does not start
  with \<^verbatim>\<open>gitdir: \<close>, the result is \<^verbatim>\<open>.git/hooks\<close> below the project; a relative target of
  the redirection is joined to the project path before it is resolved, an absolute one is
  taken as it is.
\<close>

lemma get_hooks_dir_fallback:
  "(\<not> is_file w (setup_path s @ [''.git'']) \<longrightarrow>
      get_hooks_dir w s = setup_path s @ [''.git'', ''hooks''] \<and> \<not> get_hooks_dir_raises w s)
   \<and> (is_file w (setup_path s @ [''.git'']) \<and> read_text w (setup_path s @ [''.git'']) = None \<longrightarrow>
      get_hooks_dir w s = setup_path s @ [''.git'', ''hooks''] \<and> \<not> get_hooks_dir_raises w s)
   \<and> (is_file w (setup_path s @ [''.git''])
        \<and> read_text w (setup_path s @ [''.git'']) = Some raw
        \<and> \<not> startswith (strip raw) ''gitdir: '' \<longrightarrow>
      get_hooks_dir w s = setup_path s @ [''.git'', ''hooks''] \<and> \<not> get_hooks_dir_raises w s)
   \<and> (is_file w (setup_path s @ [''.git''])
        \<and> read_text w (setup_path s @ [''.git'']) = Some raw
        \<and> startswith (strip raw) ''gitdir: '' \<longrightarrow>
      get_hooks_dir_raises w s = resolve_raises (joinpath (setup_path s) (drop 8 (strip raw)))
      \<and> get_hooks_dir w s =
          resolve (if is_absolute (drop 8 (strip raw)) then path_parts (drop 8 (strip raw))
                   else setup_path s @ path_parts (drop 8 (strip raw))) @ [''hooks''])"
  by (simp add: get_hooks_dir_def get_hooks_dir_raises_def Let_def joinpath_def)

lemma get_hooks_dir_examples:
  "get_hooks_dir submodule_tree (init_setup [''market'', ''plug''] False False)
     = [''market'', ''.git'', ''modules'', ''plug'', ''hooks'']"
  "get_hooks_dir odd_git_file_tree (init_setup [''market'', ''plug''] False False)
     = [''market'', ''plug'', ''.git'', ''hooks'']"
  "get_hooks_dir unreadable_git_file_tree (init_setup [''market'', ''plug''] False False)
     = [''market'', ''plug'', ''.git'', ''hooks'']"
  "\<not> get_hooks_dir_raises submodule_tree (init_setup [''market'', ''plug''] False False)"
  by code_simp+

text \<open>
  Claim C10, at a project whose \<^verbatim>\<open>.git\<close> is a readable file with a \<^verbatim>\<open>gitdir:\<close> line that
  holds a NUL character. The claim says that the resolution never raises. The text starts
  with the redirection prefix, the target is relative and is joined to the project path,
  and \<^verbatim>\<open>resolve()\<close> raises \<^verbatim>\<open>ValueError\<close>, which the clause
  \<^verbatim>\<open>except (OSError, UnicodeDecodeError)\<close> does not catch.
\<close>

theorem gitdir_with_nul_raises:
  "is_file nul_git_file_tree [''market'', ''plug'', ''.git'']
   \<and> read_text nul_git_file_tree [''market'', ''plug'', ''.git'']
       = Some (''gitdir: ../.git/mod'' @ [CHR 0x00] @ ''ules/plug'')
   \<and> startswith (strip (''gitdir: ../.git/mod'' @ [CHR 0x00] @ ''ules/plug'')) ''gitdir: ''
   \<and> get_hooks_dir_raises nul_git_file_tree (init_setup [''market'', ''plug''] False False)"
  by code_simp

end
